theory Spec2Isabelle
  imports Main "HOL-Library.Word"
begin

section \<open>XML tokens, errors and the decoder interface\<close>

text \<open>
  The client is written against Go's \<^verbatim>\<open>encoding/xml\<close>. A decoder hands out a stream of
  tokens; \<^verbatim>\<open>xml.Name\<close> is a pair of a namespace and a local name.
\<close>

type_synonym name = "string \<times> string"
type_synonym attr = "name \<times> string"

datatype token =
    StartElement name "attr list"
  | EndElement name
  | CharData string
  | Comment string
  | ProcInst string string
  | Directive string

text \<open>
  Errors produced by the libraries the client calls: \<^verbatim>\<open>io.EOF\<close>, a syntax error of the
  tokenizer, an error of the reflective unmarshaller, an error of the reader underneath
  (gzip header, gzip checksum, unexpected end of a compressed stream), an error of the
  marshaller.
\<close>

datatype lib_error =
    EOF
  | SyntaxError string
  | UnmarshalError string
  | ReadError string
  | MarshalError string

text \<open>\<^verbatim>\<open>type Fault struct { XMLName xml.Name; Faultstring string }\<close>\<close>

record Fault =
  XMLName :: name
  Faultstring :: string

text \<open>
  The error values the client itself returns: a library error passed through, a failure
  of \<^verbatim>\<open>httpClient.Do\<close>, a \<^verbatim>\<open>*Fault\<close>, \<^verbatim>\<open>fmt.Errorf(prefix + "%w", err)\<close>, and
  \<^verbatim>\<open>errors.New(text)\<close>.
\<close>

datatype error =
    Lib lib_error
  | TransportError string
  | FaultError Fault
  | Errorf string error
  | ErrorString string

fun lib_message :: "lib_error \<Rightarrow> string" where
  "lib_message EOF = ''EOF''"
| "lib_message (SyntaxError s) = s"
| "lib_message (UnmarshalError s) = s"
| "lib_message (ReadError s) = s"
| "lib_message (MarshalError s) = s"

text \<open>
  \<^verbatim>\<open>func (f *Fault) Error() string { return f.Faultstring }\<close>, and the \<^verbatim>\<open>Error\<close> method
  of the other error values; a wrapping error prints its prefix and then the wrapped error.
\<close>

fun Error :: "error \<Rightarrow> string" where
  "Error (Lib e) = lib_message e"
| "Error (TransportError s) = s"
| "Error (FaultError f) = Faultstring f"
| "Error (Errorf prefix e) = prefix @ Error e"
| "Error (ErrorString s) = s"

text \<open>\<^verbatim>\<open>errors.As(err, &fault)\<close>: the first \<^verbatim>\<open>*Fault\<close> on the chain of wrapped errors.\<close>

fun as_Fault :: "error \<Rightarrow> Fault option" where
  "as_Fault (FaultError f) = Some f"
| "as_Fault (Errorf prefix e) = as_Fault e"
| "as_Fault _ = None"

text \<open>
  A decoder is the tokens it still has to hand out and the error that \<^verbatim>\<open>Token\<close> returns
  once they are used up (\<^verbatim>\<open>io.EOF\<close> at a clean end, the tokenizer's or the reader's error
  otherwise).
\<close>

record decoder =
  toks :: "token list"
  final :: lib_error

fun is_start :: "token \<Rightarrow> bool" where
  "is_start (StartElement n a) = True"
| "is_start _ = False"

fun is_end :: "token \<Rightarrow> bool" where
  "is_end (EndElement n) = True"
| "is_end _ = False"

text \<open>
  \<^verbatim>\<open>d.Skip()\<close>: read tokens until the end element matching the most recent start element
  has been consumed, skipping nested structures; an error of \<^verbatim>\<open>Token\<close> (also
  \<^verbatim>\<open>io.EOF\<close>) is returned as it is.
\<close>

fun skip_loop :: "lib_error \<Rightarrow> nat \<Rightarrow> token list \<Rightarrow> lib_error option \<times> token list" where
  "skip_loop fin depth [] = (Some fin, [])"
| "skip_loop fin depth (StartElement n a # ts) = skip_loop fin (Suc depth) ts"
| "skip_loop fin depth (EndElement n # ts) =
     (if depth = 0 then (None, ts) else skip_loop fin (depth - 1) ts)"
| "skip_loop fin depth (t # ts) = skip_loop fin depth ts"

definition Skip :: "decoder \<Rightarrow> lib_error option \<times> decoder" where
  "Skip d = (case skip_loop (final d) 0 (toks d) of (e, ts) \<Rightarrow> (e, d\<lparr>toks := ts\<rparr>))"

text \<open>
  The tokens of the element whose start element has just been read, up to its matching end
  element, and the tokens after that end element; \<open>None\<close> when the stream ends inside the
  element.
\<close>

fun element_rest :: "nat \<Rightarrow> token list \<Rightarrow> (token list \<times> token list) option" where
  "element_rest depth [] = None"
| "element_rest depth (t # ts) =
     (if is_end t \<and> depth = 0 then Some ([], ts)
      else map_option (\<lambda>(inner, rest). (t # inner, rest))
             (element_rest (if is_start t then Suc depth else if is_end t then depth - 1 else depth) ts))"

text \<open>
  Inside an open element the tokenizer never reports a bare \<^verbatim>\<open>io.EOF\<close>: it reports the
  syntax error "unexpected EOF".
\<close>

definition eof_inside :: "lib_error \<Rightarrow> lib_error" where
  "eof_inside fin = (if fin = EOF then SyntaxError ''XML syntax error: unexpected EOF'' else fin)"

text \<open>
  \<^verbatim>\<open>d.DecodeElement(v, &start)\<close> decodes the element that \<open>start\<close> opens into the
  destination, by reflection on the destination's type. The reflective part is a parameter:
  an unmarshaller gets the destination, the name and the attributes of the start element and
  the tokens between the start element and its end element, and returns the filled
  destination or an error. On an error the destination, which no caller of the client reads
  after an error, is not tracked, and the position of the decoder means nothing: every
  caller returns the error at once.
\<close>

type_synonym 'd unmarshaler = "'d \<Rightarrow> name \<Rightarrow> attr list \<Rightarrow> token list \<Rightarrow> lib_error + 'd"

definition DecodeElement ::
  "'d unmarshaler \<Rightarrow> 'd \<Rightarrow> name \<Rightarrow> attr list \<Rightarrow> decoder \<Rightarrow> (lib_error + 'd) \<times> decoder" where
  "DecodeElement unm v n a d =
     (case element_rest 0 (toks d) of
        None \<Rightarrow> (Inl (eof_inside (final d)), d\<lparr>toks := []\<rparr>)
      | Some (inner, rest) \<Rightarrow> (unm v n a inner, d\<lparr>toks := rest\<rparr>))"

section \<open>The generic body extractor\<close>

text \<open>
  \<^verbatim>\<open>type body struct { XMLName xml.Name `xml:"Body"`; Content any }\<close>; \<open>Content\<close> holds
  the pointer to the caller's destination.
\<close>

record 'd body =
  XMLName :: name
  Content :: 'd

text \<open>
  \<^verbatim>\<open>func (b *body) UnmarshalXML(d *xml.Decoder, start xml.StartElement) error\<close>: one
  equation for each outcome of \<^verbatim>\<open>d.Token()\<close>. Only the first element inside the body is
  unmarshalled; after it the rest of the body is skipped.
\<close>

fun body_loop ::
  "'d unmarshaler \<Rightarrow> 'd body \<Rightarrow> lib_error \<Rightarrow> token list \<Rightarrow> (lib_error + 'd body) \<times> token list" where
  "body_loop unm b fin [] = (if fin = EOF then Inr b else Inl fin, [])"
| "body_loop unm b fin (StartElement n a # ts) =
     (case DecodeElement unm (Content b) n a \<lparr>toks = ts, final = fin\<rparr> of
        (Inl err, d') \<Rightarrow> (Inl err, toks d')
      | (Inr c, d') \<Rightarrow>
          (case Skip d' of
             (Some err, d'') \<Rightarrow> (Inl err, toks d'')
           | (None, d'') \<Rightarrow> (Inr (b\<lparr>Content := c\<rparr>), toks d'')))"
| "body_loop unm b fin (t # ts) = body_loop unm b fin ts"

definition UnmarshalXML ::
  "'d unmarshaler \<Rightarrow> 'd body \<Rightarrow> decoder \<Rightarrow> (lib_error + 'd body) \<times> decoder" where
  "UnmarshalXML unm b d =
     (case body_loop unm b (final d) (toks d) of (r, ts) \<Rightarrow> (r, d\<lparr>toks := ts\<rparr>))"

text \<open>Well-formed content as trees, and the tokens the tokenizer hands out for it.\<close>

datatype node =
    Elem name "attr list" "node list"
  | Text string
  | CommentNode string
  | ProcInstNode string string
  | DirectiveNode string

fun flat :: "node \<Rightarrow> token list" where
  "flat (Elem n a kids) = StartElement n a # concat (map flat kids) @ [EndElement n]"
| "flat (Text s) = [CharData s]"
| "flat (CommentNode s) = [Comment s]"
| "flat (ProcInstNode t s) = [ProcInst t s]"
| "flat (DirectiveNode s) = [Directive s]"

definition flats :: "node list \<Rightarrow> token list" where
  "flats ns = concat (map flat ns)"


section \<open>HTTP: requests, responses and what the client leaves behind\<close>

text \<open>
  \<^verbatim>\<open>http.Header\<close> with \<^verbatim>\<open>Add\<close> and \<^verbatim>\<open>Get\<close> (the first value of the key, or the
  empty string). Header names compare without regard to case; the model keeps the names of
  a request as the source writes them and takes those of a response in the canonical form
  in which \<^verbatim>\<open>net/http\<close> stores them.
\<close>

type_synonym header = "(string \<times> string) list"

definition Header_Add :: "header \<Rightarrow> string \<Rightarrow> string \<Rightarrow> header" where
  "Header_Add h k v = h @ [(k, v)]"

definition Header_Get :: "header \<Rightarrow> string \<Rightarrow> string" where
  "Header_Get h k = (case map_of h k of None \<Rightarrow> [] | Some v \<Rightarrow> v)"

text \<open>
  A reader is the bytes it delivers and the error that ends it (\<^verbatim>\<open>io.EOF\<close> at a clean
  end).
\<close>

record reader =
  data :: string
  rerr :: lib_error

record request =
  Method :: string
  URL :: string
  Header :: header
  Body :: string

record response =
  Status :: string
  StatusCode :: int
  Header :: header
  Body :: reader

text \<open>
  \<^verbatim>\<open>type Client struct { url string; httpClient *http.Client; ctx context.Context }\<close>. The
  cookie jar and the connection pool of \<open>httpClient\<close> are part of the world below; the
  timeout and the context act inside \<^verbatim>\<open>httpClient.Do\<close>.
\<close>

record Client =
  url :: string
  Timeout :: int

text \<open>
  What a call leaves behind: the requests handed to \<^verbatim>\<open>httpClient.Do\<close>, in order, and
  the number of times \<^verbatim>\<open>httpClient.CloseIdleConnections\<close> has run.
\<close>

record world =
  sent :: "request list"
  idle_closed :: nat

text \<open>
  The libraries the client calls, as parameters: \<^verbatim>\<open>httpClient.Do\<close> (its answer may
  depend on the requests sent before: the cookie jar and the server's session), the error,
  if any, with which \<^verbatim>\<open>http.NewRequest\<close> refuses a URL, \<^verbatim>\<open>gzip.NewReader\<close>,
  \<^verbatim>\<open>xml.NewDecoder\<close> (the tokenizer over a reader) and the bytes the XML encoder writes
  for a sequence of tokens.
\<close>

record lib =
  Do :: "request list \<Rightarrow> request \<Rightarrow> string + response"
  url_error :: "string \<Rightarrow> string option"
  gzip_NewReader :: "reader \<Rightarrow> lib_error + reader"
  NewDecoder :: "reader \<Rightarrow> decoder"
  render :: "token list \<Rightarrow> string"

definition NewRequest :: "lib \<Rightarrow> string \<Rightarrow> string \<Rightarrow> string \<Rightarrow> error + request" where
  "NewRequest L method u buf =
     (case url_error L u of
        Some msg \<Rightarrow> Inl (TransportError msg)
      | None \<Rightarrow> Inr \<lparr>Method = method, URL = u, request.Header = [], request.Body = buf\<rparr>)"

definition xml_Header :: string where
  \<open>xml_Header = ''<?xml version="1.0" encoding="UTF-8"?>'' @ [CHR 0x0A]\<close>

section \<open>The envelope\<close>

text \<open>
  \<^verbatim>\<open>type envelope struct { XMLName xml.Name `xml:"http://schemas.xmlsoap.org/soap/envelope/ Envelope"`; Body body }\<close>
\<close>

record 'd envelope =
  XMLName :: name
  Body :: "'d body"

definition envelope_ns :: string where
  "envelope_ns = ''http://schemas.xmlsoap.org/soap/envelope/''"

definition daisy_ns :: string where
  "daisy_ns = ''http://www.daisy.org/ns/daisy-online/''"

text \<open>\<^verbatim>\<open>var reqEnv envelope\<close>: the zero value, around a given content.\<close>

definition envelope_of :: "'d \<Rightarrow> 'd envelope" where
  "envelope_of c = \<lparr>envelope.XMLName = ([], []), envelope.Body = \<lparr>body.XMLName = ([], []), Content = c\<rparr>\<rparr>"

text \<open>
  A marshaller writes the tokens of a payload, by reflection on its type (a parameter).
  \<^verbatim>\<open>enc.Encode(reqEnv)\<close> writes the envelope element, the body element and, inside it,
  the payload.
\<close>

type_synonym 'a marshaler = "'a \<Rightarrow> lib_error + token list"

definition Encode :: "'a marshaler \<Rightarrow> 'a envelope \<Rightarrow> lib_error + token list" where
  "Encode mar env =
     (case mar (Content (envelope.Body env)) of
        Inl err \<Rightarrow> Inl err
      | Inr ts \<Rightarrow>
          Inr ([StartElement (envelope_ns, ''Envelope'') [], StartElement ([], ''Body'') []] @ ts @
               [EndElement ([], ''Body''), EndElement (envelope_ns, ''Envelope'')]))"

text \<open>The first start element of a stream and the tokens after it.\<close>

fun find_start :: "token list \<Rightarrow> (name \<times> attr list \<times> token list) option" where
  "find_start [] = None"
| "find_start (StartElement n a # ts) = Some (n, a, ts)"
| "find_start (t # ts) = find_start ts"

text \<open>
  The fields of the envelope, as \<^verbatim>\<open>dec.Decode(&respEnv)\<close> fills them. \<open>depth\<close>
  counts the child elements that are open: a child element named \<open>Body\<close> goes to
  \<^verbatim>\<open>body.UnmarshalXML\<close>, which sees the tokens up to the end element of the body and then
  \<^verbatim>\<open>io.EOF\<close>, and must consume them all; any other child element is skipped; the end
  element of the envelope ends the decoding.
\<close>

fun envelope_fields ::
  "'d unmarshaler \<Rightarrow> 'd body \<Rightarrow> lib_error \<Rightarrow> nat \<Rightarrow> token list \<Rightarrow> lib_error + 'd body" where
  "envelope_fields unm b fin depth [] = Inl (eof_inside fin)"
| "envelope_fields unm b fin depth (EndElement n # ts) =
     (if depth = 0 then Inr b else envelope_fields unm b fin (depth - 1) ts)"
| "envelope_fields unm b fin depth (StartElement n a # ts) =
     (if depth = 0 \<and> snd n = ''Body'' then
        (case element_rest 0 ts of
           None \<Rightarrow>
             (case UnmarshalXML unm b \<lparr>toks = ts, final = eof_inside fin\<rparr> of
                (Inl err, d) \<Rightarrow> Inl err
              | (Inr b', d) \<Rightarrow> Inl (UnmarshalError ''xml: UnmarshalXML did not consume entire <Body> element''))
         | Some (inner, rest) \<Rightarrow>
             (case UnmarshalXML unm b \<lparr>toks = inner @ [EndElement n], final = EOF\<rparr> of
                (Inl err, d) \<Rightarrow> Inl err
              | (Inr b', d) \<Rightarrow>
                  if toks d = [] then envelope_fields unm b' fin (Suc depth) ts
                  else Inl (UnmarshalError ''xml: UnmarshalXML did not consume entire <Body> element'')))
      else envelope_fields unm b fin (Suc depth) ts)"
| "envelope_fields unm b fin depth (t # ts) = envelope_fields unm b fin depth ts"

text \<open>
  \<^verbatim>\<open>dec.Decode(&respEnv)\<close>: read up to the first start element, which must be the
  envelope of the SOAP namespace, then fill the fields.
\<close>

definition Decode :: "'d unmarshaler \<Rightarrow> 'd envelope \<Rightarrow> decoder \<Rightarrow> lib_error + 'd envelope" where
  "Decode unm env d =
     (case find_start (toks d) of
        None \<Rightarrow> Inl (final d)
      | Some (n, a, ts) \<Rightarrow>
          if snd n \<noteq> ''Envelope'' then
            Inl (UnmarshalError (''expected element type <Envelope> but have <'' @ snd n @ ''>''))
          else if fst n \<noteq> envelope_ns then
            Inl (UnmarshalError (''expected element <Envelope> in name space '' @ envelope_ns @ '' but have '' @
                   (if fst n = [] then ''no name space'' else fst n)))
          else
            (case envelope_fields unm (envelope.Body env) (final d) 0 ts of
               Inl err \<Rightarrow> Inl err
             | Inr b \<Rightarrow> Inr (env\<lparr>envelope.XMLName := n, envelope.Body := b\<rparr>)))"


section \<open>Fault\<close>

text \<open>
  The text directly inside the element whose start element has just been read: the
  character data up to the matching end element, without that of nested elements.
\<close>

fun element_text :: "nat \<Rightarrow> token list \<Rightarrow> string" where
  "element_text depth [] = []"
| "element_text depth (CharData s # ts) =
     (if depth = 0 then s @ element_text depth ts else element_text depth ts)"
| "element_text depth (StartElement n a # ts) = element_text (Suc depth) ts"
| "element_text depth (EndElement n # ts) = (if depth = 0 then [] else element_text (depth - 1) ts)"
| "element_text depth (t # ts) = element_text depth ts"

text \<open>
  What \<^verbatim>\<open>encoding/xml\<close> does for
  \<^verbatim>\<open>type Fault struct { XMLName xml.Name `xml:"Fault"`; Faultstring string `xml:"faultstring"` }\<close>:
  the element must be named \<open>Fault\<close> (in any namespace); its name is recorded; each child
  element named \<open>faultstring\<close> sets the field to its text; everything else is skipped.
\<close>

fun Fault_fields :: "Fault \<Rightarrow> nat \<Rightarrow> token list \<Rightarrow> Fault" where
  "Fault_fields f depth [] = f"
| "Fault_fields f depth (StartElement n a # ts) =
     Fault_fields (if depth = 0 \<and> snd n = ''faultstring'' then f\<lparr>Faultstring := element_text 0 ts\<rparr> else f)
       (Suc depth) ts"
| "Fault_fields f depth (EndElement n # ts) = Fault_fields f (depth - 1) ts"
| "Fault_fields f depth (t # ts) = Fault_fields f depth ts"

definition unmarshal_Fault :: "Fault unmarshaler" where
  "unmarshal_Fault f n a inner =
     (if snd n \<noteq> ''Fault'' then
        Inl (UnmarshalError (''expected element type <Fault> but have <'' @ snd n @ ''>''))
      else Inr (Fault_fields (f\<lparr>Fault.XMLName := n\<rparr>) 0 inner))"

text \<open>\<^verbatim>\<open>&Fault{}\<close>\<close>

definition Fault_zero :: Fault where
  "Fault_zero = \<lparr>Fault.XMLName = ([], []), Faultstring = []\<rparr>"

section \<open>The transport invoker\<close>

text \<open>
  The reader the response is decoded from: the gzip reader over the body when the response
  says \<^verbatim>\<open>Content-Encoding: gzip\<close>, the body itself otherwise.
\<close>

definition response_reader :: "lib \<Rightarrow> response \<Rightarrow> lib_error + reader" where
  "response_reader L resp =
     (if Header_Get (response.Header resp) ''Content-Encoding'' = ''gzip''
      then gzip_NewReader L (response.Body resp)
      else Inr (response.Body resp))"

text \<open>
  The headers every request gets, in the order of the four \<^verbatim>\<open>req.Header.Add\<close> calls.
\<close>

definition add_headers :: "string \<Rightarrow> request \<Rightarrow> request" where
  "add_headers action req =
     req\<lparr>request.Header :=
       Header_Add (Header_Add (Header_Add (Header_Add (request.Header req)
         ''Content-Type'' ''text/xml; charset=utf-8'')
         ''Accept'' ''text/xml'')
         ''Accept-Encoding'' ''gzip'')
         ''SOAPAction'' (''/'' @ action)\<rparr>"

text \<open>
  \<^verbatim>\<open>func (c *Client) call(action string, args any, rs any) error\<close>, from the response on:
  the status decides whether the envelope is decoded around a fresh \<^verbatim>\<open>Fault\<close> or around
  the caller's destination.
\<close>

definition call_response :: "lib \<Rightarrow> 'r unmarshaler \<Rightarrow> response \<Rightarrow> 'r \<Rightarrow> error + 'r" where
  "call_response L unm resp rs =
     (case response_reader L resp of
        Inl err \<Rightarrow> Inl (Lib err)
      | Inr reader \<Rightarrow>
          (let dec = NewDecoder L reader in
           if StatusCode resp \<noteq> 200 then
             (case Decode unmarshal_Fault (envelope_of Fault_zero) dec of
                Inl err \<Rightarrow> Inl (Lib err)
              | Inr respEnv \<Rightarrow> Inl (Errorf ''fault: '' (FaultError (Content (envelope.Body respEnv)))))
           else
             (case Decode unm (envelope_of rs) dec of
                Inl err \<Rightarrow> Inl (Lib err)
              | Inr respEnv \<Rightarrow> Inr (Content (envelope.Body respEnv)))))"

text \<open>
  \<^verbatim>\<open>call\<close> as a whole: encode the envelope around the arguments, build the POST request,
  add the headers, send it once, and decode the response. An error of \<^verbatim>\<open>enc.Encode\<close> or
  of \<^verbatim>\<open>enc.Close\<close> is the error of the marshaller. The result is the error or the filled
  destination.
\<close>

definition call ::
  "lib \<Rightarrow> 'a marshaler \<Rightarrow> 'r unmarshaler \<Rightarrow> Client \<Rightarrow> string \<Rightarrow> 'a \<Rightarrow> 'r \<Rightarrow> world
     \<Rightarrow> (error + 'r) \<times> world" where
  "call L mar unm c action args rs w =
     (case Encode mar (envelope_of args) of
        Inl err \<Rightarrow> (Inl (Lib err), w)
      | Inr ts \<Rightarrow>
          (case NewRequest L ''POST'' (url c) (xml_Header @ render L ts) of
             Inl err \<Rightarrow> (Inl err, w)
           | Inr req0 \<Rightarrow>
               (let req = add_headers action req0;
                    w' = w\<lparr>sent := sent w @ [req]\<rparr>
                in case Do L (sent w) req of
                     Inl msg \<Rightarrow> (Inl (TransportError msg), w')
                   | Inr resp \<Rightarrow> (call_response L unm resp rs, w'))))"


section \<open>The operations\<close>

text \<open>
  The request and the response structure of each operation. The structures nested in them
  (\<^verbatim>\<open>ServiceAttributes\<close>, \<^verbatim>\<open>ReadingSystemAttributes\<close>, \<^verbatim>\<open>ContentList\<close>,
  \<^verbatim>\<open>ContentMetadata\<close>, \<^verbatim>\<open>Resources\<close>, \<^verbatim>\<open>UserResponses\<close>, \<^verbatim>\<open>Questions\<close>,
  \<^verbatim>\<open>Announcements\<close>, \<^verbatim>\<open>BookmarkSet\<close>, \<^verbatim>\<open>Read\<close>) are type parameters; a pointer
  is an option. The item numbers of \<^verbatim>\<open>getContentList\<close> are \<^verbatim>\<open>int32\<close> in the client
  with a context and \<^verbatim>\<open>int\<close> in the two older ones.
\<close>

record logOn =
  XMLName :: name
  Username :: string
  Password :: string

record logOnResponse =
  XMLName :: name
  LogOnResult :: bool

record logOff =
  XMLName :: name

record logOffResponse =
  XMLName :: name
  LogOffResult :: bool

record getServiceAttributes =
  XMLName :: name

record 'sa getServiceAttributesResponse =
  XMLName :: name
  ServiceAttributes :: 'sa

record 'rsa setReadingSystemAttributes =
  XMLName :: name
  ReadingSystemAttributes :: "'rsa option"

record setReadingSystemAttributesResponse =
  XMLName :: name
  SetReadingSystemAttributesResult :: bool

record 'i getContentList =
  XMLName :: name
  ID :: string
  FirstItem :: 'i
  LastItem :: 'i

record 'cl getContentListResponse =
  XMLName :: name
  ContentList :: 'cl

record getContentMetadata =
  XMLName :: name
  ContentID :: string

record 'cm getContentMetadataResponse =
  XMLName :: name
  ContentMetadata :: 'cm

record getContentResources =
  XMLName :: name
  ContentID :: string

record 'rs getContentResourcesResponse =
  XMLName :: name
  Resources :: 'rs

record issueContent =
  XMLName :: name
  ContentID :: string

record issueContentResponse =
  XMLName :: name
  IssueContentResult :: bool

record returnContent =
  XMLName :: name
  ContentID :: string

record returnContentResponse =
  XMLName :: name
  ReturnContentResult :: bool

record 'ur getQuestions =
  XMLName :: name
  UserResponses :: "'ur option"

record 'q getQuestionsResponse =
  XMLName :: name
  Questions :: 'q

record getServiceAnnouncements =
  XMLName :: name

record 'an getServiceAnnouncementsResponse =
  XMLName :: name
  Announcements :: 'an

record 'bs setBookmarks =
  XMLName :: name
  ContentID :: string
  BookmarkSet :: "'bs option"

record setBookmarksResponse =
  XMLName :: name
  SetBookmarksResult :: bool

record getBookmarks =
  XMLName :: name
  ContentID :: string

record 'bs getBookmarksResponse =
  XMLName :: name
  BookmarkSet :: 'bs

record 'rd markAnnouncementsAsRead =
  XMLName :: name
  Read :: "'rd option"

record markAnnouncementsAsReadResponse =
  XMLName :: name
  MarkAnnouncementsAsReadResult :: bool


text \<open>
  One method per operation. Each gets the marshaller of its request type and the
  unmarshaller of its response type; a method that returns a pointer into its response also
  gets the zero value of the structure pointed to. The result is the pair the method
  returns: the value (\<open>None\<close> is \<^verbatim>\<open>nil\<close>) and the error (\<open>None\<close> is \<^verbatim>\<open>nil\<close>).
\<close>

definition LogOn ::
  "lib \<Rightarrow> (logOn) marshaler \<Rightarrow> (logOnResponse) unmarshaler \<Rightarrow> Client \<Rightarrow> string \<Rightarrow> string \<Rightarrow> world
     \<Rightarrow> (bool \<times> error option) \<times> world" where
  "LogOn L mar unm c username password w =
     (let action = ''logOn'';
          req = \<lparr>logOn.XMLName = ([], []), logOn.Username = username, logOn.Password = password\<rparr>;
          resp = \<lparr>logOnResponse.XMLName = ([], []), logOnResponse.LogOnResult = False\<rparr>
      in case call L mar unm c action req resp w of
           (Inl err, w') \<Rightarrow> ((False, Some (Errorf (action @ '' operation: '') err)), w')
         | (Inr resp', w') \<Rightarrow> ((logOnResponse.LogOnResult resp', None), w'))"

definition LogOff ::
  "lib \<Rightarrow> (logOff) marshaler \<Rightarrow> (logOffResponse) unmarshaler \<Rightarrow> Client \<Rightarrow> world
     \<Rightarrow> (bool \<times> error option) \<times> world" where
  "LogOff L mar unm c w =
     (let action = ''logOff'';
          req = \<lparr>logOff.XMLName = ([], [])\<rparr>;
          resp = \<lparr>logOffResponse.XMLName = ([], []), logOffResponse.LogOffResult = False\<rparr>
      in case call L mar unm c action req resp w of
           (Inl err, w') \<Rightarrow> ((False, Some (Errorf (action @ '' operation: '') err)), w')
         | (Inr resp', w') \<Rightarrow> ((logOffResponse.LogOffResult resp', None), w'\<lparr>idle_closed := Suc (idle_closed w')\<rparr>))"

definition GetServiceAttributes ::
  "lib \<Rightarrow> (getServiceAttributes) marshaler \<Rightarrow> ('sa getServiceAttributesResponse) unmarshaler \<Rightarrow> 'sa \<Rightarrow> Client \<Rightarrow> world
     \<Rightarrow> ('sa option \<times> error option) \<times> world" where
  "GetServiceAttributes L mar unm zero_value c w =
     (let action = ''getServiceAttributes'';
          req = \<lparr>getServiceAttributes.XMLName = ([], [])\<rparr>;
          resp = \<lparr>getServiceAttributesResponse.XMLName = ([], []), getServiceAttributesResponse.ServiceAttributes = zero_value\<rparr>
      in case call L mar unm c action req resp w of
           (Inl err, w') \<Rightarrow> ((None, Some (Errorf (action @ '' operation: '') err)), w')
         | (Inr resp', w') \<Rightarrow> ((Some (getServiceAttributesResponse.ServiceAttributes resp'), None), w'))"

definition SetReadingSystemAttributes ::
  "lib \<Rightarrow> ('rsa setReadingSystemAttributes) marshaler \<Rightarrow> (setReadingSystemAttributesResponse) unmarshaler \<Rightarrow> Client \<Rightarrow> ('rsa option) \<Rightarrow> world
     \<Rightarrow> (bool \<times> error option) \<times> world" where
  "SetReadingSystemAttributes L mar unm c readingSystemAttributes w =
     (let action = ''setReadingSystemAttributes'';
          req = \<lparr>setReadingSystemAttributes.XMLName = ([], []), setReadingSystemAttributes.ReadingSystemAttributes = readingSystemAttributes\<rparr>;
          resp = \<lparr>setReadingSystemAttributesResponse.XMLName = ([], []), setReadingSystemAttributesResponse.SetReadingSystemAttributesResult = False\<rparr>
      in case call L mar unm c action req resp w of
           (Inl err, w') \<Rightarrow> ((False, Some (Errorf (action @ '' operation: '') err)), w')
         | (Inr resp', w') \<Rightarrow> ((setReadingSystemAttributesResponse.SetReadingSystemAttributesResult resp', None), w'))"

definition GetContentList ::
  "lib \<Rightarrow> ((32 word) getContentList) marshaler \<Rightarrow> ('cl getContentListResponse) unmarshaler \<Rightarrow> 'cl \<Rightarrow> Client \<Rightarrow> string \<Rightarrow> (32 word) \<Rightarrow> (32 word) \<Rightarrow> world
     \<Rightarrow> ('cl option \<times> error option) \<times> world" where
  "GetContentList L mar unm zero_value c id' firstItem lastItem w =
     (let action = ''getContentList'';
          req = \<lparr>getContentList.XMLName = ([], []), getContentList.ID = id', getContentList.FirstItem = firstItem, getContentList.LastItem = lastItem\<rparr>;
          resp = \<lparr>getContentListResponse.XMLName = ([], []), getContentListResponse.ContentList = zero_value\<rparr>
      in case call L mar unm c action req resp w of
           (Inl err, w') \<Rightarrow> ((None, Some (Errorf (action @ '' operation: '') err)), w')
         | (Inr resp', w') \<Rightarrow> ((Some (getContentListResponse.ContentList resp'), None), w'))"

definition GetContentMetadata ::
  "lib \<Rightarrow> (getContentMetadata) marshaler \<Rightarrow> ('cm getContentMetadataResponse) unmarshaler \<Rightarrow> 'cm \<Rightarrow> Client \<Rightarrow> string \<Rightarrow> world
     \<Rightarrow> ('cm option \<times> error option) \<times> world" where
  "GetContentMetadata L mar unm zero_value c contentID w =
     (let action = ''getContentMetadata'';
          req = \<lparr>getContentMetadata.XMLName = ([], []), getContentMetadata.ContentID = contentID\<rparr>;
          resp = \<lparr>getContentMetadataResponse.XMLName = ([], []), getContentMetadataResponse.ContentMetadata = zero_value\<rparr>
      in case call L mar unm c action req resp w of
           (Inl err, w') \<Rightarrow> ((None, Some (Errorf (action @ '' operation: '') err)), w')
         | (Inr resp', w') \<Rightarrow> ((Some (getContentMetadataResponse.ContentMetadata resp'), None), w'))"

definition GetContentResources ::
  "lib \<Rightarrow> (getContentResources) marshaler \<Rightarrow> ('rs getContentResourcesResponse) unmarshaler \<Rightarrow> 'rs \<Rightarrow> Client \<Rightarrow> string \<Rightarrow> world
     \<Rightarrow> ('rs option \<times> error option) \<times> world" where
  "GetContentResources L mar unm zero_value c contentID w =
     (let action = ''getContentResources'';
          req = \<lparr>getContentResources.XMLName = ([], []), getContentResources.ContentID = contentID\<rparr>;
          resp = \<lparr>getContentResourcesResponse.XMLName = ([], []), getContentResourcesResponse.Resources = zero_value\<rparr>
      in case call L mar unm c action req resp w of
           (Inl err, w') \<Rightarrow> ((None, Some (Errorf (action @ '' operation: '') err)), w')
         | (Inr resp', w') \<Rightarrow> ((Some (getContentResourcesResponse.Resources resp'), None), w'))"

definition IssueContent ::
  "lib \<Rightarrow> (issueContent) marshaler \<Rightarrow> (issueContentResponse) unmarshaler \<Rightarrow> Client \<Rightarrow> string \<Rightarrow> world
     \<Rightarrow> (bool \<times> error option) \<times> world" where
  "IssueContent L mar unm c contentID w =
     (let action = ''issueContent'';
          req = \<lparr>issueContent.XMLName = ([], []), issueContent.ContentID = contentID\<rparr>;
          resp = \<lparr>issueContentResponse.XMLName = ([], []), issueContentResponse.IssueContentResult = False\<rparr>
      in case call L mar unm c action req resp w of
           (Inl err, w') \<Rightarrow> ((False, Some (Errorf (action @ '' operation: '') err)), w')
         | (Inr resp', w') \<Rightarrow> ((issueContentResponse.IssueContentResult resp', None), w'))"

definition ReturnContent ::
  "lib \<Rightarrow> (returnContent) marshaler \<Rightarrow> (returnContentResponse) unmarshaler \<Rightarrow> Client \<Rightarrow> string \<Rightarrow> world
     \<Rightarrow> (bool \<times> error option) \<times> world" where
  "ReturnContent L mar unm c contentID w =
     (let action = ''returnContent'';
          req = \<lparr>returnContent.XMLName = ([], []), returnContent.ContentID = contentID\<rparr>;
          resp = \<lparr>returnContentResponse.XMLName = ([], []), returnContentResponse.ReturnContentResult = False\<rparr>
      in case call L mar unm c action req resp w of
           (Inl err, w') \<Rightarrow> ((False, Some (Errorf (action @ '' operation: '') err)), w')
         | (Inr resp', w') \<Rightarrow> ((returnContentResponse.ReturnContentResult resp', None), w'))"

definition GetQuestions ::
  "lib \<Rightarrow> ('ur getQuestions) marshaler \<Rightarrow> ('q getQuestionsResponse) unmarshaler \<Rightarrow> 'q \<Rightarrow> Client \<Rightarrow> ('ur option) \<Rightarrow> world
     \<Rightarrow> ('q option \<times> error option) \<times> world" where
  "GetQuestions L mar unm zero_value c userResponses w =
     (let action = ''getQuestions'';
          req = \<lparr>getQuestions.XMLName = ([], []), getQuestions.UserResponses = userResponses\<rparr>;
          resp = \<lparr>getQuestionsResponse.XMLName = ([], []), getQuestionsResponse.Questions = zero_value\<rparr>
      in case call L mar unm c action req resp w of
           (Inl err, w') \<Rightarrow> ((None, Some (Errorf (action @ '' operation: '') err)), w')
         | (Inr resp', w') \<Rightarrow> ((Some (getQuestionsResponse.Questions resp'), None), w'))"

definition GetServiceAnnouncements ::
  "lib \<Rightarrow> (getServiceAnnouncements) marshaler \<Rightarrow> ('an getServiceAnnouncementsResponse) unmarshaler \<Rightarrow> 'an \<Rightarrow> Client \<Rightarrow> world
     \<Rightarrow> ('an option \<times> error option) \<times> world" where
  "GetServiceAnnouncements L mar unm zero_value c w =
     (let action = ''getServiceAnnouncements'';
          req = \<lparr>getServiceAnnouncements.XMLName = ([], [])\<rparr>;
          resp = \<lparr>getServiceAnnouncementsResponse.XMLName = ([], []), getServiceAnnouncementsResponse.Announcements = zero_value\<rparr>
      in case call L mar unm c action req resp w of
           (Inl err, w') \<Rightarrow> ((None, Some (Errorf (action @ '' operation: '') err)), w')
         | (Inr resp', w') \<Rightarrow> ((Some (getServiceAnnouncementsResponse.Announcements resp'), None), w'))"

definition SetBookmarks ::
  "lib \<Rightarrow> ('bs setBookmarks) marshaler \<Rightarrow> (setBookmarksResponse) unmarshaler \<Rightarrow> Client \<Rightarrow> string \<Rightarrow> ('bs option) \<Rightarrow> world
     \<Rightarrow> (bool \<times> error option) \<times> world" where
  "SetBookmarks L mar unm c contentID bookmarkSet w =
     (let action = ''setBookmarks'';
          req = \<lparr>setBookmarks.XMLName = ([], []), setBookmarks.ContentID = contentID, setBookmarks.BookmarkSet = bookmarkSet\<rparr>;
          resp = \<lparr>setBookmarksResponse.XMLName = ([], []), setBookmarksResponse.SetBookmarksResult = False\<rparr>
      in case call L mar unm c action req resp w of
           (Inl err, w') \<Rightarrow> ((False, Some (Errorf (action @ '' operation: '') err)), w')
         | (Inr resp', w') \<Rightarrow> ((setBookmarksResponse.SetBookmarksResult resp', None), w'))"

definition GetBookmarks ::
  "lib \<Rightarrow> (getBookmarks) marshaler \<Rightarrow> ('bs getBookmarksResponse) unmarshaler \<Rightarrow> 'bs \<Rightarrow> Client \<Rightarrow> string \<Rightarrow> world
     \<Rightarrow> ('bs option \<times> error option) \<times> world" where
  "GetBookmarks L mar unm zero_value c contentID w =
     (let action = ''getBookmarks'';
          req = \<lparr>getBookmarks.XMLName = ([], []), getBookmarks.ContentID = contentID\<rparr>;
          resp = \<lparr>getBookmarksResponse.XMLName = ([], []), getBookmarksResponse.BookmarkSet = zero_value\<rparr>
      in case call L mar unm c action req resp w of
           (Inl err, w') \<Rightarrow> ((None, Some (Errorf (action @ '' operation: '') err)), w')
         | (Inr resp', w') \<Rightarrow> ((Some (getBookmarksResponse.BookmarkSet resp'), None), w'))"

definition MarkAnnouncementsAsRead ::
  "lib \<Rightarrow> ('rd markAnnouncementsAsRead) marshaler \<Rightarrow> (markAnnouncementsAsReadResponse) unmarshaler \<Rightarrow> Client \<Rightarrow> ('rd option) \<Rightarrow> world
     \<Rightarrow> (bool \<times> error option) \<times> world" where
  "MarkAnnouncementsAsRead L mar unm c read w =
     (let action = ''markAnnouncementsAsRead'';
          req = \<lparr>markAnnouncementsAsRead.XMLName = ([], []), markAnnouncementsAsRead.Read = read\<rparr>;
          resp = \<lparr>markAnnouncementsAsReadResponse.XMLName = ([], []), markAnnouncementsAsReadResponse.MarkAnnouncementsAsReadResult = False\<rparr>
      in case call L mar unm c action req resp w of
           (Inl err, w') \<Rightarrow> ((False, Some (Errorf (action @ '' operation: '') err)), w')
         | (Inr resp', w') \<Rightarrow> ((markAnnouncementsAsReadResponse.MarkAnnouncementsAsReadResult resp', None), w'))"



section \<open>The client of \<^verbatim>\<open>client.go\<close>\<close>

text \<open>
  \<^verbatim>\<open>client.go\<close> holds an earlier client of the same package. It has no
  \<^verbatim>\<open>body.UnmarshalXML\<close>: the response is decoded into an \<^verbatim>\<open>envelopeResponse\<close>, whose
  body keeps the raw XML inside it (\<^verbatim>\<open>Content []byte `xml:",innerxml"`\<close>), and that is
  unmarshalled in a second pass. The raw XML is represented by the tokens the tokenizer
  reads from it.
\<close>

record envelopeResponse_Body =
  XMLName :: name
  Content :: "token list"

record envelopeResponse =
  XMLName :: name
  Body :: envelopeResponse_Body

definition envelopeResponse_zero :: envelopeResponse where
  "envelopeResponse_zero =
     \<lparr>envelopeResponse.XMLName = ([], []),
      envelopeResponse.Body = \<lparr>envelopeResponse_Body.XMLName = ([], []), envelopeResponse_Body.Content = []\<rparr>\<rparr>"

text \<open>
  The fields of an \<^verbatim>\<open>envelopeResponse\<close>: a child element named \<open>Body\<close> stores what
  is inside it; any other child element is skipped.
\<close>

fun envelopeResponse_fields ::
  "envelopeResponse \<Rightarrow> lib_error \<Rightarrow> nat \<Rightarrow> token list \<Rightarrow> lib_error + envelopeResponse" where
  "envelopeResponse_fields e fin depth [] = Inl (eof_inside fin)"
| "envelopeResponse_fields e fin depth (EndElement n # ts) =
     (if depth = 0 then Inr e else envelopeResponse_fields e fin (depth - 1) ts)"
| "envelopeResponse_fields e fin depth (StartElement n a # ts) =
     (if depth = 0 \<and> snd n = ''Body'' then
        (case element_rest 0 ts of
           None \<Rightarrow> Inl (eof_inside fin)
         | Some (inner, rest) \<Rightarrow>
             envelopeResponse_fields
               (e\<lparr>envelopeResponse.Body :=
                    \<lparr>envelopeResponse_Body.XMLName = n, envelopeResponse_Body.Content = inner\<rparr>\<rparr>)
               fin (Suc depth) ts)
      else envelopeResponse_fields e fin (Suc depth) ts)"
| "envelopeResponse_fields e fin depth (t # ts) = envelopeResponse_fields e fin depth ts"

text \<open>
  \<^verbatim>\<open>xml.NewDecoder(reader).Decode(&envresp)\<close>: the first start element must be named
  \<open>Envelope\<close>, in any namespace.
\<close>

definition Decode_envelopeResponse :: "envelopeResponse \<Rightarrow> decoder \<Rightarrow> lib_error + envelopeResponse" where
  "Decode_envelopeResponse e d =
     (case find_start (toks d) of
        None \<Rightarrow> Inl (final d)
      | Some (n, a, ts) \<Rightarrow>
          if snd n \<noteq> ''Envelope'' then
            Inl (UnmarshalError (''expected element type <Envelope> but have <'' @ snd n @ ''>''))
          else envelopeResponse_fields (e\<lparr>envelopeResponse.XMLName := n\<rparr>) (final d) 0 ts)"

text \<open>
  \<^verbatim>\<open>xml.Unmarshal(data, v)\<close>: decode the first element of the data into \<open>v\<close>;
  \<^verbatim>\<open>io.EOF\<close> when the data holds no element.
\<close>

definition Unmarshal :: "'d unmarshaler \<Rightarrow> token list \<Rightarrow> 'd \<Rightarrow> lib_error + 'd" where
  "Unmarshal unm content v =
     (case find_start content of
        None \<Rightarrow> Inl EOF
      | Some (n, a, ts) \<Rightarrow> fst (DecodeElement unm v n a \<lparr>toks = ts, final = EOF\<rparr>))"

text \<open>
  The request envelope of \<^verbatim>\<open>client.go\<close>:
  \<^verbatim>\<open>envelope{NS: ..., Body: body{NS: ..., Content: args}}\<close>, with the element names
  \<open>SOAP-ENV:Envelope\<close> and \<open>SOAP-ENV:Body\<close> and the namespaces as attributes.
\<close>

record 'a client_body =
  XMLName :: name
  NS :: string
  Content :: 'a

record 'a client_envelope =
  XMLName :: name
  NS :: string
  Body :: "'a client_body"

definition client_Encode :: "'a marshaler \<Rightarrow> 'a client_envelope \<Rightarrow> lib_error + token list" where
  "client_Encode mar env =
     (case mar (client_body.Content (client_envelope.Body env)) of
        Inl err \<Rightarrow> Inl err
      | Inr ts \<Rightarrow>
          Inr ([StartElement ([], ''SOAP-ENV:Envelope'') [(([], ''xmlns:SOAP-ENV''), client_envelope.NS env)],
                StartElement ([], ''SOAP-ENV:Body'') [(([], ''xmlns''), client_body.NS (client_envelope.Body env))]]
               @ ts @
               [EndElement ([], ''SOAP-ENV:Body''), EndElement ([], ''SOAP-ENV:Envelope'')]))"

text \<open>
  \<^verbatim>\<open>func (c *Client) call(method string, args any, rs any) error\<close> of \<^verbatim>\<open>client.go\<close>,
  from the response on: the envelope is decoded first, then the status decides what its
  body is unmarshalled into.
\<close>

definition client_call_response :: "lib \<Rightarrow> 'r unmarshaler \<Rightarrow> response \<Rightarrow> 'r \<Rightarrow> error + 'r" where
  "client_call_response L unm resp rs =
     (case response_reader L resp of
        Inl err \<Rightarrow> Inl (Lib err)
      | Inr reader \<Rightarrow>
          (case Decode_envelopeResponse envelopeResponse_zero (NewDecoder L reader) of
             Inl err \<Rightarrow> Inl (Lib err)
           | Inr envresp \<Rightarrow>
               if StatusCode resp \<noteq> 200 then
                 (case Unmarshal unmarshal_Fault (envelopeResponse_Body.Content (envelopeResponse.Body envresp)) Fault_zero of
                    Inl err \<Rightarrow> Inl (Lib err)
                  | Inr fault \<Rightarrow> Inl (FaultError fault))
               else
                 (case Unmarshal unm (envelopeResponse_Body.Content (envelopeResponse.Body envresp)) rs of
                    Inl err \<Rightarrow> Inl (Lib err)
                  | Inr rs' \<Rightarrow> Inr rs')))"

definition client_call ::
  "lib \<Rightarrow> 'a marshaler \<Rightarrow> 'r unmarshaler \<Rightarrow> Client \<Rightarrow> string \<Rightarrow> 'a \<Rightarrow> 'r \<Rightarrow> world
     \<Rightarrow> (error + 'r) \<times> world" where
  "client_call L mar unm c method args rs w =
     (let env = \<lparr>client_envelope.XMLName = ([], []), client_envelope.NS = envelope_ns,
                 client_envelope.Body =
                   \<lparr>client_body.XMLName = ([], []), client_body.NS = daisy_ns, client_body.Content = args\<rparr>\<rparr>
      in case client_Encode mar env of
           Inl err \<Rightarrow> (Inl (Lib err), w)
         | Inr ts \<Rightarrow>
             (case NewRequest L ''POST'' (url c) (xml_Header @ render L ts) of
                Inl err \<Rightarrow> (Inl err, w)
              | Inr req0 \<Rightarrow>
                  (let req = add_headers method req0;
                       w' = w\<lparr>sent := sent w @ [req]\<rparr>
                   in case Do L (sent w) req of
                        Inl msg \<Rightarrow> (Inl (TransportError msg), w')
                      | Inr resp \<Rightarrow> (client_call_response L unm resp rs, w'))))"

text \<open>The methods of \<^verbatim>\<open>client.go\<close>: an error of \<open>call\<close> is returned as it is.\<close>

definition client_LogOn ::
  "lib \<Rightarrow> (logOn) marshaler \<Rightarrow> (logOnResponse) unmarshaler \<Rightarrow> Client \<Rightarrow> string \<Rightarrow> string \<Rightarrow> world
     \<Rightarrow> (bool \<times> error option) \<times> world" where
  "client_LogOn L mar unm c username password w =
     (let req = \<lparr>logOn.XMLName = ([], []), logOn.Username = username, logOn.Password = password\<rparr>;
          resp = \<lparr>logOnResponse.XMLName = ([], []), logOnResponse.LogOnResult = False\<rparr>
      in case client_call L mar unm c ''logOn'' req resp w of
           (Inl err, w') \<Rightarrow> ((False, Some err), w')
         | (Inr resp', w') \<Rightarrow> ((logOnResponse.LogOnResult resp', None), w'))"

definition client_LogOff ::
  "lib \<Rightarrow> (logOff) marshaler \<Rightarrow> (logOffResponse) unmarshaler \<Rightarrow> Client \<Rightarrow> world
     \<Rightarrow> (bool \<times> error option) \<times> world" where
  "client_LogOff L mar unm c w =
     (let req = \<lparr>logOff.XMLName = ([], [])\<rparr>;
          resp = \<lparr>logOffResponse.XMLName = ([], []), logOffResponse.LogOffResult = False\<rparr>
      in case client_call L mar unm c ''logOff'' req resp w of
           (Inl err, w') \<Rightarrow> ((False, Some err), w')
         | (Inr resp', w') \<Rightarrow> ((logOffResponse.LogOffResult resp', None), w'\<lparr>idle_closed := Suc (idle_closed w')\<rparr>))"

definition client_GetServiceAttributes ::
  "lib \<Rightarrow> (getServiceAttributes) marshaler \<Rightarrow> ('sa getServiceAttributesResponse) unmarshaler \<Rightarrow> 'sa \<Rightarrow> Client \<Rightarrow> world
     \<Rightarrow> ('sa option \<times> error option) \<times> world" where
  "client_GetServiceAttributes L mar unm zero_value c w =
     (let req = \<lparr>getServiceAttributes.XMLName = ([], [])\<rparr>;
          resp = \<lparr>getServiceAttributesResponse.XMLName = ([], []), getServiceAttributesResponse.ServiceAttributes = zero_value\<rparr>
      in case client_call L mar unm c ''getServiceAttributes'' req resp w of
           (Inl err, w') \<Rightarrow> ((None, Some err), w')
         | (Inr resp', w') \<Rightarrow> ((Some (getServiceAttributesResponse.ServiceAttributes resp'), None), w'))"

definition client_SetReadingSystemAttributes ::
  "lib \<Rightarrow> ('rsa setReadingSystemAttributes) marshaler \<Rightarrow> (setReadingSystemAttributesResponse) unmarshaler \<Rightarrow> Client \<Rightarrow> ('rsa option) \<Rightarrow> world
     \<Rightarrow> (bool \<times> error option) \<times> world" where
  "client_SetReadingSystemAttributes L mar unm c readingSystemAttributes w =
     (let req = \<lparr>setReadingSystemAttributes.XMLName = ([], []), setReadingSystemAttributes.ReadingSystemAttributes = readingSystemAttributes\<rparr>;
          resp = \<lparr>setReadingSystemAttributesResponse.XMLName = ([], []), setReadingSystemAttributesResponse.SetReadingSystemAttributesResult = False\<rparr>
      in case client_call L mar unm c ''setReadingSystemAttributes'' req resp w of
           (Inl err, w') \<Rightarrow> ((False, Some err), w')
         | (Inr resp', w') \<Rightarrow> ((setReadingSystemAttributesResponse.SetReadingSystemAttributesResult resp', None), w'))"

definition client_GetContentList ::
  "lib \<Rightarrow> ((64 word) getContentList) marshaler \<Rightarrow> ('cl getContentListResponse) unmarshaler \<Rightarrow> 'cl \<Rightarrow> Client \<Rightarrow> string \<Rightarrow> (64 word) \<Rightarrow> (64 word) \<Rightarrow> world
     \<Rightarrow> ('cl option \<times> error option) \<times> world" where
  "client_GetContentList L mar unm zero_value c id' firstItem lastItem w =
     (let req = \<lparr>getContentList.XMLName = ([], []), getContentList.ID = id', getContentList.FirstItem = firstItem, getContentList.LastItem = lastItem\<rparr>;
          resp = \<lparr>getContentListResponse.XMLName = ([], []), getContentListResponse.ContentList = zero_value\<rparr>
      in case client_call L mar unm c ''getContentList'' req resp w of
           (Inl err, w') \<Rightarrow> ((None, Some err), w')
         | (Inr resp', w') \<Rightarrow> ((Some (getContentListResponse.ContentList resp'), None), w'))"

definition client_GetContentMetadata ::
  "lib \<Rightarrow> (getContentMetadata) marshaler \<Rightarrow> ('cm getContentMetadataResponse) unmarshaler \<Rightarrow> 'cm \<Rightarrow> Client \<Rightarrow> string \<Rightarrow> world
     \<Rightarrow> ('cm option \<times> error option) \<times> world" where
  "client_GetContentMetadata L mar unm zero_value c contentID w =
     (let req = \<lparr>getContentMetadata.XMLName = ([], []), getContentMetadata.ContentID = contentID\<rparr>;
          resp = \<lparr>getContentMetadataResponse.XMLName = ([], []), getContentMetadataResponse.ContentMetadata = zero_value\<rparr>
      in case client_call L mar unm c ''getContentMetadata'' req resp w of
           (Inl err, w') \<Rightarrow> ((None, Some err), w')
         | (Inr resp', w') \<Rightarrow> ((Some (getContentMetadataResponse.ContentMetadata resp'), None), w'))"

definition client_GetContentResources ::
  "lib \<Rightarrow> (getContentResources) marshaler \<Rightarrow> ('rs getContentResourcesResponse) unmarshaler \<Rightarrow> 'rs \<Rightarrow> Client \<Rightarrow> string \<Rightarrow> world
     \<Rightarrow> ('rs option \<times> error option) \<times> world" where
  "client_GetContentResources L mar unm zero_value c contentID w =
     (let req = \<lparr>getContentResources.XMLName = ([], []), getContentResources.ContentID = contentID\<rparr>;
          resp = \<lparr>getContentResourcesResponse.XMLName = ([], []), getContentResourcesResponse.Resources = zero_value\<rparr>
      in case client_call L mar unm c ''getContentResources'' req resp w of
           (Inl err, w') \<Rightarrow> ((None, Some err), w')
         | (Inr resp', w') \<Rightarrow> ((Some (getContentResourcesResponse.Resources resp'), None), w'))"

definition client_IssueContent ::
  "lib \<Rightarrow> (issueContent) marshaler \<Rightarrow> (issueContentResponse) unmarshaler \<Rightarrow> Client \<Rightarrow> string \<Rightarrow> world
     \<Rightarrow> (bool \<times> error option) \<times> world" where
  "client_IssueContent L mar unm c contentID w =
     (let req = \<lparr>issueContent.XMLName = ([], []), issueContent.ContentID = contentID\<rparr>;
          resp = \<lparr>issueContentResponse.XMLName = ([], []), issueContentResponse.IssueContentResult = False\<rparr>
      in case client_call L mar unm c ''issueContent'' req resp w of
           (Inl err, w') \<Rightarrow> ((False, Some err), w')
         | (Inr resp', w') \<Rightarrow> ((issueContentResponse.IssueContentResult resp', None), w'))"

definition client_ReturnContent ::
  "lib \<Rightarrow> (returnContent) marshaler \<Rightarrow> (returnContentResponse) unmarshaler \<Rightarrow> Client \<Rightarrow> string \<Rightarrow> world
     \<Rightarrow> (bool \<times> error option) \<times> world" where
  "client_ReturnContent L mar unm c contentID w =
     (let req = \<lparr>returnContent.XMLName = ([], []), returnContent.ContentID = contentID\<rparr>;
          resp = \<lparr>returnContentResponse.XMLName = ([], []), returnContentResponse.ReturnContentResult = False\<rparr>
      in case client_call L mar unm c ''returnContent'' req resp w of
           (Inl err, w') \<Rightarrow> ((False, Some err), w')
         | (Inr resp', w') \<Rightarrow> ((returnContentResponse.ReturnContentResult resp', None), w'))"

definition client_GetQuestions ::
  "lib \<Rightarrow> ('ur getQuestions) marshaler \<Rightarrow> ('q getQuestionsResponse) unmarshaler \<Rightarrow> 'q \<Rightarrow> Client \<Rightarrow> ('ur option) \<Rightarrow> world
     \<Rightarrow> ('q option \<times> error option) \<times> world" where
  "client_GetQuestions L mar unm zero_value c userResponses w =
     (let req = \<lparr>getQuestions.XMLName = ([], []), getQuestions.UserResponses = userResponses\<rparr>;
          resp = \<lparr>getQuestionsResponse.XMLName = ([], []), getQuestionsResponse.Questions = zero_value\<rparr>
      in case client_call L mar unm c ''getQuestions'' req resp w of
           (Inl err, w') \<Rightarrow> ((None, Some err), w')
         | (Inr resp', w') \<Rightarrow> ((Some (getQuestionsResponse.Questions resp'), None), w'))"

definition client_GetServiceAnnouncements ::
  "lib \<Rightarrow> (getServiceAnnouncements) marshaler \<Rightarrow> ('an getServiceAnnouncementsResponse) unmarshaler \<Rightarrow> 'an \<Rightarrow> Client \<Rightarrow> world
     \<Rightarrow> ('an option \<times> error option) \<times> world" where
  "client_GetServiceAnnouncements L mar unm zero_value c w =
     (let req = \<lparr>getServiceAnnouncements.XMLName = ([], [])\<rparr>;
          resp = \<lparr>getServiceAnnouncementsResponse.XMLName = ([], []), getServiceAnnouncementsResponse.Announcements = zero_value\<rparr>
      in case client_call L mar unm c ''getServiceAnnouncements'' req resp w of
           (Inl err, w') \<Rightarrow> ((None, Some err), w')
         | (Inr resp', w') \<Rightarrow> ((Some (getServiceAnnouncementsResponse.Announcements resp'), None), w'))"


section \<open>The client of the package \<^verbatim>\<open>daisyonline\<close>\<close>

text \<open>
  The oldest client in the repository. Its \<open>call\<close> panics when the envelope cannot be
  marshalled, adds three headers, knows neither gzip nor \<^verbatim>\<open>Fault\<close>, and answers a
  status other than 200 with \<^verbatim>\<open>errors.New(resp.Status)\<close> before it reads the body. (It
  also sets \<^verbatim>\<open>req.ContentLength\<close> to the length of the body, which the request record
  does not keep apart from the body.)
\<close>

datatype 'a outcome = Panic lib_error | Return 'a

record 'a envelopeBody =
  XMLName :: name
  Content :: 'a

record 'a daisyonline_envelope =
  XMLName :: name
  NS :: string
  Body :: "'a envelopeBody"

text \<open>\<^verbatim>\<open>xml.Marshal(env)\<close>: the body element takes its name from the \<open>XMLName\<close> field.\<close>

definition daisyonline_Marshal :: "'a marshaler \<Rightarrow> 'a daisyonline_envelope \<Rightarrow> lib_error + token list" where
  "daisyonline_Marshal mar env =
     (case mar (envelopeBody.Content (daisyonline_envelope.Body env)) of
        Inl err \<Rightarrow> Inl err
      | Inr ts \<Rightarrow>
          Inr ([StartElement ([], ''SOAP-ENV:Envelope'') [(([], ''xmlns:SOAP-ENV''), daisyonline_envelope.NS env)],
                StartElement (envelopeBody.XMLName (daisyonline_envelope.Body env)) []]
               @ ts @
               [EndElement (envelopeBody.XMLName (daisyonline_envelope.Body env)),
                EndElement ([], ''SOAP-ENV:Envelope'')]))"

definition daisyonline_add_headers :: "string \<Rightarrow> request \<Rightarrow> request" where
  "daisyonline_add_headers method req =
     req\<lparr>request.Header :=
       Header_Add (Header_Add (Header_Add (request.Header req)
         ''Content-Type'' ''text/xml; charset=utf-8'')
         ''Accept'' ''text/xml'')
         ''SOAPAction'' (''/'' @ method)\<rparr>"

definition daisyonline_call_response :: "lib \<Rightarrow> 'r unmarshaler \<Rightarrow> response \<Rightarrow> 'r \<Rightarrow> error + 'r" where
  "daisyonline_call_response L unm resp rs =
     (if StatusCode resp \<noteq> 200 then Inl (ErrorString (Status resp))
      else
        (case Decode_envelopeResponse envelopeResponse_zero (NewDecoder L (response.Body resp)) of
           Inl err \<Rightarrow> Inl (Lib err)
         | Inr envresp \<Rightarrow>
             (case Unmarshal unm (envelopeResponse_Body.Content (envelopeResponse.Body envresp)) rs of
                Inl err \<Rightarrow> Inl (Lib err)
              | Inr rs' \<Rightarrow> Inr rs')))"

definition daisyonline_call ::
  "lib \<Rightarrow> 'a marshaler \<Rightarrow> 'r unmarshaler \<Rightarrow> Client \<Rightarrow> string \<Rightarrow> 'a \<Rightarrow> 'r \<Rightarrow> world
     \<Rightarrow> (error + 'r) outcome \<times> world" where
  "daisyonline_call L mar unm c method args rs w =
     (let env = \<lparr>daisyonline_envelope.XMLName = ([], []), daisyonline_envelope.NS = envelope_ns,
                 daisyonline_envelope.Body =
                   \<lparr>envelopeBody.XMLName = (daisy_ns, ''SOAP-ENV:Body''), envelopeBody.Content = args\<rparr>\<rparr>
      in case daisyonline_Marshal mar env of
           Inl err \<Rightarrow> (Panic err, w)
         | Inr ts \<Rightarrow>
             (case NewRequest L ''POST'' (url c) (xml_Header @ render L ts) of
                Inl err \<Rightarrow> (Return (Inl err), w)
              | Inr req0 \<Rightarrow>
                  (let req = daisyonline_add_headers method req0;
                       w' = w\<lparr>sent := sent w @ [req]\<rparr>
                   in case Do L (sent w) req of
                        Inl msg \<Rightarrow> (Return (Inl (TransportError msg)), w')
                      | Inr resp \<Rightarrow> (Return (daisyonline_call_response L unm resp rs), w'))))"

definition daisyonline_LogOn ::
  "lib \<Rightarrow> (logOn) marshaler \<Rightarrow> (logOnResponse) unmarshaler \<Rightarrow> Client \<Rightarrow> string \<Rightarrow> string \<Rightarrow> world
     \<Rightarrow> (bool \<times> error option) outcome \<times> world" where
  "daisyonline_LogOn L mar unm c username password w =
     (let req = \<lparr>logOn.XMLName = ([], []), logOn.Username = username, logOn.Password = password\<rparr>;
          resp = \<lparr>logOnResponse.XMLName = ([], []), logOnResponse.LogOnResult = False\<rparr>
      in case daisyonline_call L mar unm c ''logOn'' req resp w of
           (Panic e, w') \<Rightarrow> (Panic e, w')
         | (Return (Inl err), w') \<Rightarrow> (Return (False, Some err), w')
         | (Return (Inr resp'), w') \<Rightarrow> (Return (logOnResponse.LogOnResult resp', None), w'))"

definition daisyonline_LogOff ::
  "lib \<Rightarrow> (logOff) marshaler \<Rightarrow> (logOffResponse) unmarshaler \<Rightarrow> Client \<Rightarrow> world
     \<Rightarrow> (bool \<times> error option) outcome \<times> world" where
  "daisyonline_LogOff L mar unm c w =
     (let req = \<lparr>logOff.XMLName = ([], [])\<rparr>;
          resp = \<lparr>logOffResponse.XMLName = ([], []), logOffResponse.LogOffResult = False\<rparr>
      in case daisyonline_call L mar unm c ''logOff'' req resp w of
           (Panic e, w') \<Rightarrow> (Panic e, w')
         | (Return (Inl err), w') \<Rightarrow> (Return (False, Some err), w')
         | (Return (Inr resp'), w') \<Rightarrow> (Return (logOffResponse.LogOffResult resp', None), w'))"

definition daisyonline_GetServiceAttributes ::
  "lib \<Rightarrow> (getServiceAttributes) marshaler \<Rightarrow> ('sa getServiceAttributesResponse) unmarshaler \<Rightarrow> 'sa \<Rightarrow> Client \<Rightarrow> world
     \<Rightarrow> ('sa option \<times> error option) outcome \<times> world" where
  "daisyonline_GetServiceAttributes L mar unm zero_value c w =
     (let req = \<lparr>getServiceAttributes.XMLName = ([], [])\<rparr>;
          resp = \<lparr>getServiceAttributesResponse.XMLName = ([], []), getServiceAttributesResponse.ServiceAttributes = zero_value\<rparr>
      in case daisyonline_call L mar unm c ''getServiceAttributes'' req resp w of
           (Panic e, w') \<Rightarrow> (Panic e, w')
         | (Return (Inl err), w') \<Rightarrow> (Return (None, Some err), w')
         | (Return (Inr resp'), w') \<Rightarrow> (Return (Some (getServiceAttributesResponse.ServiceAttributes resp'), None), w'))"

definition daisyonline_SetReadingSystemAttributes ::
  "lib \<Rightarrow> ('rsa setReadingSystemAttributes) marshaler \<Rightarrow> (setReadingSystemAttributesResponse) unmarshaler \<Rightarrow> Client \<Rightarrow> ('rsa option) \<Rightarrow> world
     \<Rightarrow> (bool \<times> error option) outcome \<times> world" where
  "daisyonline_SetReadingSystemAttributes L mar unm c readingSystemAttributes w =
     (let req = \<lparr>setReadingSystemAttributes.XMLName = ([], []), setReadingSystemAttributes.ReadingSystemAttributes = readingSystemAttributes\<rparr>;
          resp = \<lparr>setReadingSystemAttributesResponse.XMLName = ([], []), setReadingSystemAttributesResponse.SetReadingSystemAttributesResult = False\<rparr>
      in case daisyonline_call L mar unm c ''setReadingSystemAttributes'' req resp w of
           (Panic e, w') \<Rightarrow> (Panic e, w')
         | (Return (Inl err), w') \<Rightarrow> (Return (False, Some err), w')
         | (Return (Inr resp'), w') \<Rightarrow> (Return (setReadingSystemAttributesResponse.SetReadingSystemAttributesResult resp', None), w'))"

definition daisyonline_GetContentList ::
  "lib \<Rightarrow> ((64 word) getContentList) marshaler \<Rightarrow> ('cl getContentListResponse) unmarshaler \<Rightarrow> 'cl \<Rightarrow> Client \<Rightarrow> string \<Rightarrow> (64 word) \<Rightarrow> (64 word) \<Rightarrow> world
     \<Rightarrow> ('cl option \<times> error option) outcome \<times> world" where
  "daisyonline_GetContentList L mar unm zero_value c id' firstItem lastItem w =
     (let req = \<lparr>getContentList.XMLName = ([], []), getContentList.ID = id', getContentList.FirstItem = firstItem, getContentList.LastItem = lastItem\<rparr>;
          resp = \<lparr>getContentListResponse.XMLName = ([], []), getContentListResponse.ContentList = zero_value\<rparr>
      in case daisyonline_call L mar unm c ''getContentList'' req resp w of
           (Panic e, w') \<Rightarrow> (Panic e, w')
         | (Return (Inl err), w') \<Rightarrow> (Return (None, Some err), w')
         | (Return (Inr resp'), w') \<Rightarrow> (Return (Some (getContentListResponse.ContentList resp'), None), w'))"

definition daisyonline_GetContentMetadata ::
  "lib \<Rightarrow> (getContentMetadata) marshaler \<Rightarrow> ('cm getContentMetadataResponse) unmarshaler \<Rightarrow> 'cm \<Rightarrow> Client \<Rightarrow> string \<Rightarrow> world
     \<Rightarrow> ('cm option \<times> error option) outcome \<times> world" where
  "daisyonline_GetContentMetadata L mar unm zero_value c contentID w =
     (let req = \<lparr>getContentMetadata.XMLName = ([], []), getContentMetadata.ContentID = contentID\<rparr>;
          resp = \<lparr>getContentMetadataResponse.XMLName = ([], []), getContentMetadataResponse.ContentMetadata = zero_value\<rparr>
      in case daisyonline_call L mar unm c ''getContentMetadata'' req resp w of
           (Panic e, w') \<Rightarrow> (Panic e, w')
         | (Return (Inl err), w') \<Rightarrow> (Return (None, Some err), w')
         | (Return (Inr resp'), w') \<Rightarrow> (Return (Some (getContentMetadataResponse.ContentMetadata resp'), None), w'))"

definition daisyonline_GetContentResources ::
  "lib \<Rightarrow> (getContentResources) marshaler \<Rightarrow> ('rs getContentResourcesResponse) unmarshaler \<Rightarrow> 'rs \<Rightarrow> Client \<Rightarrow> string \<Rightarrow> world
     \<Rightarrow> ('rs option \<times> error option) outcome \<times> world" where
  "daisyonline_GetContentResources L mar unm zero_value c contentID w =
     (let req = \<lparr>getContentResources.XMLName = ([], []), getContentResources.ContentID = contentID\<rparr>;
          resp = \<lparr>getContentResourcesResponse.XMLName = ([], []), getContentResourcesResponse.Resources = zero_value\<rparr>
      in case daisyonline_call L mar unm c ''getContentResources'' req resp w of
           (Panic e, w') \<Rightarrow> (Panic e, w')
         | (Return (Inl err), w') \<Rightarrow> (Return (None, Some err), w')
         | (Return (Inr resp'), w') \<Rightarrow> (Return (Some (getContentResourcesResponse.Resources resp'), None), w'))"

definition daisyonline_IssueContent ::
  "lib \<Rightarrow> (issueContent) marshaler \<Rightarrow> (issueContentResponse) unmarshaler \<Rightarrow> Client \<Rightarrow> string \<Rightarrow> world
     \<Rightarrow> (bool \<times> error option) outcome \<times> world" where
  "daisyonline_IssueContent L mar unm c contentID w =
     (let req = \<lparr>issueContent.XMLName = ([], []), issueContent.ContentID = contentID\<rparr>;
          resp = \<lparr>issueContentResponse.XMLName = ([], []), issueContentResponse.IssueContentResult = False\<rparr>
      in case daisyonline_call L mar unm c ''issueContent'' req resp w of
           (Panic e, w') \<Rightarrow> (Panic e, w')
         | (Return (Inl err), w') \<Rightarrow> (Return (False, Some err), w')
         | (Return (Inr resp'), w') \<Rightarrow> (Return (issueContentResponse.IssueContentResult resp', None), w'))"

definition daisyonline_ReturnContent ::
  "lib \<Rightarrow> (returnContent) marshaler \<Rightarrow> (returnContentResponse) unmarshaler \<Rightarrow> Client \<Rightarrow> string \<Rightarrow> world
     \<Rightarrow> (bool \<times> error option) outcome \<times> world" where
  "daisyonline_ReturnContent L mar unm c contentID w =
     (let req = \<lparr>returnContent.XMLName = ([], []), returnContent.ContentID = contentID\<rparr>;
          resp = \<lparr>returnContentResponse.XMLName = ([], []), returnContentResponse.ReturnContentResult = False\<rparr>
      in case daisyonline_call L mar unm c ''returnContent'' req resp w of
           (Panic e, w') \<Rightarrow> (Panic e, w')
         | (Return (Inl err), w') \<Rightarrow> (Return (False, Some err), w')
         | (Return (Inr resp'), w') \<Rightarrow> (Return (returnContentResponse.ReturnContentResult resp', None), w'))"

definition daisyonline_GetQuestions ::
  "lib \<Rightarrow> ('ur getQuestions) marshaler \<Rightarrow> ('q getQuestionsResponse) unmarshaler \<Rightarrow> 'q \<Rightarrow> Client \<Rightarrow> ('ur option) \<Rightarrow> world
     \<Rightarrow> ('q option \<times> error option) outcome \<times> world" where
  "daisyonline_GetQuestions L mar unm zero_value c userResponses w =
     (let req = \<lparr>getQuestions.XMLName = ([], []), getQuestions.UserResponses = userResponses\<rparr>;
          resp = \<lparr>getQuestionsResponse.XMLName = ([], []), getQuestionsResponse.Questions = zero_value\<rparr>
      in case daisyonline_call L mar unm c ''getQuestions'' req resp w of
           (Panic e, w') \<Rightarrow> (Panic e, w')
         | (Return (Inl err), w') \<Rightarrow> (Return (None, Some err), w')
         | (Return (Inr resp'), w') \<Rightarrow> (Return (Some (getQuestionsResponse.Questions resp'), None), w'))"

definition daisyonline_GetServiceAnnouncements ::
  "lib \<Rightarrow> (getServiceAnnouncements) marshaler \<Rightarrow> ('an getServiceAnnouncementsResponse) unmarshaler \<Rightarrow> 'an \<Rightarrow> Client \<Rightarrow> world
     \<Rightarrow> ('an option \<times> error option) outcome \<times> world" where
  "daisyonline_GetServiceAnnouncements L mar unm zero_value c w =
     (let req = \<lparr>getServiceAnnouncements.XMLName = ([], [])\<rparr>;
          resp = \<lparr>getServiceAnnouncementsResponse.XMLName = ([], []), getServiceAnnouncementsResponse.Announcements = zero_value\<rparr>
      in case daisyonline_call L mar unm c ''getServiceAnnouncements'' req resp w of
           (Panic e, w') \<Rightarrow> (Panic e, w')
         | (Return (Inl err), w') \<Rightarrow> (Return (None, Some err), w')
         | (Return (Inr resp'), w') \<Rightarrow> (Return (Some (getServiceAnnouncementsResponse.Announcements resp'), None), w'))"



section \<open>Concrete codecs and servers\<close>

text \<open>
  What \<^verbatim>\<open>encoding/xml\<close> does for the sign-on structures of the client with a context:
  \<^verbatim>\<open>logOn\<close> is written as an element of the DAISY namespace with the two strings as
  child elements; \<^verbatim>\<open>logOnResponse\<close> must be an element of that name and namespace, and
  each child element named \<open>logOnResult\<close> sets the flag from its text (empty text is
  \<open>false\<close>, otherwise \<^verbatim>\<open>strconv.ParseBool\<close> of the trimmed text).
\<close>

definition marshal_logOn :: "logOn marshaler" where
  "marshal_logOn v =
     Inr [StartElement (daisy_ns, ''logOn'') [],
          StartElement ([], ''username'') [], CharData (logOn.Username v), EndElement ([], ''username''),
          StartElement ([], ''password'') [], CharData (logOn.Password v), EndElement ([], ''password''),
          EndElement (daisy_ns, ''logOn'')]"

definition marshal_logOff :: "logOff marshaler" where
  "marshal_logOff v = Inr [StartElement (daisy_ns, ''logOff'') [], EndElement (daisy_ns, ''logOff'')]"

definition is_space :: "char \<Rightarrow> bool" where
  "is_space ch = (ch \<in> set [CHR '' '', CHR 0x09, CHR 0x0A, CHR 0x0B, CHR 0x0C, CHR 0x0D])"

definition TrimSpace :: "string \<Rightarrow> string" where
  "TrimSpace s = rev (dropWhile is_space (rev (dropWhile is_space s)))"

definition ParseBool :: "string \<Rightarrow> lib_error + bool" where
  "ParseBool s =
     (if s \<in> set [''1'', ''t'', ''T'', ''TRUE'', ''true'', ''True''] then Inr True
      else if s \<in> set [''0'', ''f'', ''F'', ''FALSE'', ''false'', ''False''] then Inr False
      else Inl (UnmarshalError (''strconv.ParseBool: parsing '' @ s @ '': invalid syntax'')))"

fun logOnResponse_fields :: "logOnResponse \<Rightarrow> nat \<Rightarrow> token list \<Rightarrow> lib_error + logOnResponse" where
  "logOnResponse_fields r depth [] = Inr r"
| "logOnResponse_fields r depth (StartElement n a # ts) =
     (if depth = 0 \<and> snd n = ''logOnResult'' then
        (if element_text 0 ts = [] then
           logOnResponse_fields (r\<lparr>logOnResponse.LogOnResult := False\<rparr>) (Suc depth) ts
         else
           (case ParseBool (TrimSpace (element_text 0 ts)) of
              Inl err \<Rightarrow> Inl err
            | Inr v \<Rightarrow> logOnResponse_fields (r\<lparr>logOnResponse.LogOnResult := v\<rparr>) (Suc depth) ts))
      else logOnResponse_fields r (Suc depth) ts)"
| "logOnResponse_fields r depth (EndElement n # ts) = logOnResponse_fields r (depth - 1) ts"
| "logOnResponse_fields r depth (t # ts) = logOnResponse_fields r depth ts"

definition unmarshal_logOnResponse :: "logOnResponse unmarshaler" where
  "unmarshal_logOnResponse r n a inner =
     (if snd n \<noteq> ''logOnResponse'' then
        Inl (UnmarshalError (''expected element type <logOnResponse> but have <'' @ snd n @ ''>''))
      else if fst n \<noteq> daisy_ns then
        Inl (UnmarshalError (''expected element <logOnResponse> in name space '' @ daisy_ns @ '' but have '' @
               (if fst n = [] then ''no name space'' else fst n)))
      else logOnResponse_fields (r\<lparr>logOnResponse.XMLName := n\<rparr>) 0 inner)"

text \<open>The same for \<^verbatim>\<open>logOffResponse\<close>.\<close>

fun logOffResponse_fields :: "logOffResponse \<Rightarrow> nat \<Rightarrow> token list \<Rightarrow> lib_error + logOffResponse" where
  "logOffResponse_fields r depth [] = Inr r"
| "logOffResponse_fields r depth (StartElement n a # ts) =
     (if depth = 0 \<and> snd n = ''logOffResult'' then
        (if element_text 0 ts = [] then
           logOffResponse_fields (r\<lparr>logOffResponse.LogOffResult := False\<rparr>) (Suc depth) ts
         else
           (case ParseBool (TrimSpace (element_text 0 ts)) of
              Inl err \<Rightarrow> Inl err
            | Inr v \<Rightarrow> logOffResponse_fields (r\<lparr>logOffResponse.LogOffResult := v\<rparr>) (Suc depth) ts))
      else logOffResponse_fields r (Suc depth) ts)"
| "logOffResponse_fields r depth (EndElement n # ts) = logOffResponse_fields r (depth - 1) ts"
| "logOffResponse_fields r depth (t # ts) = logOffResponse_fields r depth ts"

definition unmarshal_logOffResponse :: "logOffResponse unmarshaler" where
  "unmarshal_logOffResponse r n a inner =
     (if snd n \<noteq> ''logOffResponse'' then
        Inl (UnmarshalError (''expected element type <logOffResponse> but have <'' @ snd n @ ''>''))
      else if fst n \<noteq> daisy_ns then
        Inl (UnmarshalError (''expected element <logOffResponse> in name space '' @ daisy_ns @ '' but have '' @
               (if fst n = [] then ''no name space'' else fst n)))
      else logOffResponse_fields (r\<lparr>logOffResponse.XMLName := n\<rparr>) 0 inner)"

text \<open>
  A SOAP document around the elements of a body, as the tokenizer reads
  \<^verbatim>\<open><SOAP-ENV:Envelope xmlns:SOAP-ENV="..."><SOAP-ENV:Body>...</SOAP-ENV:Body></SOAP-ENV:Envelope>\<close>.
\<close>

definition soap_document :: "token list \<Rightarrow> token list" where
  \<open>soap_document inner =
     [ProcInst ''xml'' ''version="1.0" encoding="UTF-8"'',
      StartElement (envelope_ns, ''Envelope'') [((''xmlns'', ''SOAP-ENV''), envelope_ns)],
      StartElement (envelope_ns, ''Body'') []] @ inner @
     [EndElement (envelope_ns, ''Body''), EndElement (envelope_ns, ''Envelope'')]\<close>

text \<open>\<^verbatim>\<open><Fault><faultstring>Invalid credentials</faultstring></Fault>\<close>\<close>

definition fault_element :: "token list" where
  "fault_element =
     [StartElement ([], ''Fault'') [],
      StartElement ([], ''faultstring'') [], CharData ''Invalid credentials'', EndElement ([], ''faultstring''),
      EndElement ([], ''Fault'')]"

text \<open>\<^verbatim>\<open><logOnResponse xmlns="http://www.daisy.org/ns/daisy-online/"><logOnResult>true</logOnResult></logOnResponse>\<close>\<close>

definition logOnResponse_element :: "token list" where
  "logOnResponse_element =
     [StartElement (daisy_ns, ''logOnResponse'') [((([], ''xmlns'')), daisy_ns)],
      StartElement (daisy_ns, ''logOnResult'') [], CharData ''true'', EndElement (daisy_ns, ''logOnResult''),
      EndElement (daisy_ns, ''logOnResponse'')]"

text \<open>\<^verbatim>\<open><logOffResponse xmlns="http://www.daisy.org/ns/daisy-online/"><logOffResult>true</logOffResult></logOffResponse>\<close>\<close>

definition logOffResponse_element :: "token list" where
  "logOffResponse_element =
     [StartElement (daisy_ns, ''logOffResponse'') [((([], ''xmlns'')), daisy_ns)],
      StartElement (daisy_ns, ''logOffResult'') [], CharData ''true'', EndElement (daisy_ns, ''logOffResult''),
      EndElement (daisy_ns, ''logOffResponse'')]"

text \<open>
  A world for examples: \<^verbatim>\<open>httpClient.Do\<close> gives the same answer to every request, every
  URL is accepted, the gzip reader is given, and the tokenizer reads the given document from
  whatever reader it gets and then reports what ended the reader.
\<close>

definition fixed_lib :: "string + response \<Rightarrow> (reader \<Rightarrow> lib_error + reader) \<Rightarrow> token list \<Rightarrow> lib" where
  "fixed_lib answer gz doc =
     \<lparr>Do = (\<lambda>hist req. answer),
      url_error = (\<lambda>u. None),
      gzip_NewReader = gz,
      NewDecoder = (\<lambda>r. \<lparr>toks = doc, final = rerr r\<rparr>),
      render = (\<lambda>ts. [])\<rparr>"

definition plain_response :: "int \<Rightarrow> string \<Rightarrow> response" where
  "plain_response code status =
     \<lparr>Status = status, StatusCode = code, response.Header = [],
      response.Body = \<lparr>data = [], rerr = EOF\<rparr>\<rparr>"

text \<open>
  A gzip response with status 200 whose compressed stream is damaged in its trailer: the
  gzip reader accepts the header, delivers all the data and ends with the checksum error.
\<close>

definition gzip_response :: response where
  "gzip_response =
     \<lparr>Status = ''200 OK'', StatusCode = 200, response.Header = [(''Content-Encoding'', ''gzip'')],
      response.Body = \<lparr>data = [], rerr = EOF\<rparr>\<rparr>"

definition bad_checksum :: "reader \<Rightarrow> lib_error + reader" where
  "bad_checksum r = Inr (r\<lparr>rerr := ReadError ''gzip: invalid checksum''\<rparr>)"

definition bad_header :: "reader \<Rightarrow> lib_error + reader" where
  "bad_header r = Inl (ReadError ''gzip: invalid header'')"

definition client0 :: Client where
  "client0 = \<lparr>url = ''https://example.org/daisyonline'', Timeout = 0\<rparr>"

definition world0 :: world where
  "world0 = \<lparr>sent = [], idle_closed = 0\<rparr>"


text \<open>
  \<^verbatim>\<open>func Authentication(client *Client, readingSystemAttributes *ReadingSystemAttributes, username, password string) (*ServiceAttributes, error)\<close>
  of the package \<^verbatim>\<open>daisyonline\<close>: the session initialization sequence, which stops at the
  first error.
\<close>

definition daisyonline_Authentication ::
  "lib \<Rightarrow> logOn marshaler \<Rightarrow> logOnResponse unmarshaler
     \<Rightarrow> getServiceAttributes marshaler \<Rightarrow> ('sa getServiceAttributesResponse) unmarshaler \<Rightarrow> 'sa
     \<Rightarrow> ('rsa setReadingSystemAttributes) marshaler \<Rightarrow> setReadingSystemAttributesResponse unmarshaler
     \<Rightarrow> Client \<Rightarrow> 'rsa option \<Rightarrow> string \<Rightarrow> string \<Rightarrow> world
     \<Rightarrow> ('sa option \<times> error option) outcome \<times> world" where
  "daisyonline_Authentication L mar1 unm1 mar2 unm2 zero_value mar3 unm3 client readingSystemAttributes
       username password w =
     (case daisyonline_LogOn L mar1 unm1 client username password w of
        (Panic e, w1) \<Rightarrow> (Panic e, w1)
      | (Return (r1, Some err), w1) \<Rightarrow> (Return (None, Some err), w1)
      | (Return (r1, None), w1) \<Rightarrow>
          (case daisyonline_GetServiceAttributes L mar2 unm2 zero_value client w1 of
             (Panic e, w2) \<Rightarrow> (Panic e, w2)
           | (Return (r2, Some err), w2) \<Rightarrow> (Return (None, Some err), w2)
           | (Return (serviceAttributes, None), w2) \<Rightarrow>
               (case daisyonline_SetReadingSystemAttributes L mar3 unm3 client readingSystemAttributes w2 of
                  (Panic e, w3) \<Rightarrow> (Panic e, w3)
                | (Return (r3, Some err), w3) \<Rightarrow> (Return (None, Some err), w3)
                | (Return (r3, None), w3) \<Rightarrow> (Return (serviceAttributes, None), w3))))"

text \<open>The servers, requests and destinations of the examples.\<close>

definition fault_lib :: lib where
  "fault_lib =
     fixed_lib (Inr (plain_response 500 ''500 Internal Server Error'')) bad_header
       (soap_document fault_element)"

definition ok_fault_lib :: lib where
  "ok_fault_lib =
     fixed_lib (Inr (plain_response 200 ''200 OK'')) bad_header (soap_document fault_element)"

definition bare_fault_lib :: lib where
  "bare_fault_lib =
     fixed_lib (Inr (plain_response 500 ''500 Internal Server Error'')) bad_header fault_element"

definition refused_lib :: lib where
  "refused_lib = fixed_lib (Inl ''dial tcp: connection refused'') bad_header []"

definition logOff_lib :: lib where
  "logOff_lib =
     fixed_lib (Inr (plain_response 200 ''200 OK'')) bad_header (soap_document logOffResponse_element)"

definition checksum_lib :: lib where
  "checksum_lib = fixed_lib (Inr gzip_response) bad_checksum (soap_document logOnResponse_element)"

definition truncated_lib :: lib where
  "truncated_lib =
     fixed_lib (Inr gzip_response) bad_checksum
       (take 5 (soap_document logOnResponse_element))"

definition header_lib :: lib where
  "header_lib = fixed_lib (Inr gzip_response) bad_header (soap_document logOnResponse_element)"

definition logOn_args :: logOn where
  "logOn_args = \<lparr>logOn.XMLName = ([], []), Username = ''u'', Password = ''p''\<rparr>"

definition logOnResponse_zero :: logOnResponse where
  "logOnResponse_zero = \<lparr>logOnResponse.XMLName = ([], []), LogOnResult = False\<rparr>"

definition logOn_request :: request where
  "logOn_request =
     add_headers ''logOn''
       \<lparr>Method = ''POST'', URL = url client0, request.Header = [], request.Body = xml_Header\<rparr>"

definition daisyonline_logOn_request :: request where
  "daisyonline_logOn_request =
     daisyonline_add_headers ''logOn''
       \<lparr>Method = ''POST'', URL = url client0, request.Header = [], request.Body = xml_Header\<rparr>"


section \<open>The body extractor on well-formed content\<close>

lemma body_loop_no_start:
  "\<forall>t\<in>set ts. \<not> is_start t \<Longrightarrow> body_loop unm b fin ts = (if fin = EOF then Inr b else Inl fin, [])"
  by (induction unm b fin ts rule: body_loop.induct) auto

lemma flats_Nil: "flats [] = []" by (simp add: flats_def)
lemma flats_Cons: "flats (n # ns) = flat n @ flats ns" by (simp add: flats_def)

lemma element_rest_flats_aux:
  assumes "\<And>n depth ts. n \<in> set ns \<Longrightarrow>
     element_rest depth (flat n @ ts) = map_option (\<lambda>(inner, rest). (flat n @ inner, rest)) (element_rest depth ts)"
  shows "element_rest depth (flats ns @ ts) = map_option (\<lambda>(inner, rest). (flats ns @ inner, rest)) (element_rest depth ts)"
  using assms
proof (induction ns)
  case Nil
  show ?case by (simp add: flats_Nil option.map_ident)
next
  case (Cons n ns)
  have "element_rest depth (flats ns @ ts) = map_option (\<lambda>(inner, rest). (flats ns @ inner, rest)) (element_rest depth ts)"
    using Cons by simp
  moreover have "element_rest depth (flat n @ flats ns @ ts)
       = map_option (\<lambda>(inner, rest). (flat n @ inner, rest)) (element_rest depth (flats ns @ ts))"
    using Cons.prems by simp
  ultimately show ?case
    by (cases "element_rest depth ts") (auto simp: flats_Cons)
qed

lemma element_rest_flat:
  "element_rest depth (flat n @ ts) = map_option (\<lambda>(inner, rest). (flat n @ inner, rest)) (element_rest depth ts)"
proof (induction n arbitrary: depth ts)
  case (Elem nm a kids)
  have k: "element_rest (Suc depth) (flats kids @ EndElement nm # ts)
      = map_option (\<lambda>(inner, rest). (flats kids @ inner, rest)) (element_rest (Suc depth) (EndElement nm # ts))"
    using Elem by (rule element_rest_flats_aux)
  show ?case
    using k by (cases "element_rest depth ts") (auto simp: flats_def)
qed simp_all

lemma element_rest_flats:
  "element_rest depth (flats ns @ ts) = map_option (\<lambda>(inner, rest). (flats ns @ inner, rest)) (element_rest depth ts)"
  by (rule element_rest_flats_aux) (rule element_rest_flat)

lemma element_rest_closed:
  "element_rest 0 (flats ns @ EndElement n # ts) = Some (flats ns, ts)"
  by (simp add: element_rest_flats)

lemma skip_loop_flats_aux:
  assumes "\<And>n depth ts. n \<in> set ns \<Longrightarrow> skip_loop fin depth (flat n @ ts) = skip_loop fin depth ts"
  shows "skip_loop fin depth (flats ns @ ts) = skip_loop fin depth ts"
  using assms by (induction ns) (simp_all add: flats_Nil flats_Cons)

lemma skip_loop_flat: "skip_loop fin depth (flat n @ ts) = skip_loop fin depth ts"
proof (induction n arbitrary: depth ts)
  case (Elem nm a kids)
  have "skip_loop fin (Suc depth) (flats kids @ EndElement nm # ts) = skip_loop fin (Suc depth) (EndElement nm # ts)"
    using Elem by (rule skip_loop_flats_aux)
  then show ?case by (simp add: flats_def)
qed simp_all

lemma skip_loop_flats: "skip_loop fin depth (flats ns @ ts) = skip_loop fin depth ts"
  by (rule skip_loop_flats_aux) (rule skip_loop_flat)

lemma body_loop_prefix:
  "\<forall>t\<in>set pre. \<not> is_start t \<Longrightarrow> body_loop unm b fin (pre @ ts) = body_loop unm b fin ts"
  by (induction unm b fin pre rule: body_loop.induct) auto

lemma body_loop_first:
  "body_loop unm b fin (flat (Elem n a kids) @ flats sibs @ [EndElement bn]) =
     (case unm (body.Content b) n a (flats kids) of
        Inl err \<Rightarrow> (Inl err, flats sibs @ [EndElement bn])
      | Inr c \<Rightarrow> (Inr (b\<lparr>body.Content := c\<rparr>), []))"
  by (simp add: DecodeElement_def Skip_def element_rest_closed skip_loop_flats flats_def[symmetric]
      split: sum.splits)


text \<open>
  Claim C3. When the first start element of the body opens a well-formed element, which any
  content without a start element may precede and any well-formed siblings may follow,
  \<^verbatim>\<open>body.UnmarshalXML\<close> hands exactly the tokens of that first element to the
  destination's unmarshaller; when that succeeds, the rest of the body is skipped and the
  decoder is left at the end. The result does not mention the siblings.
\<close>

theorem extractor_first_element_wins:
  assumes "\<forall>t\<in>set pre. \<not> is_start t"
  shows "fst (UnmarshalXML unm b
                \<lparr>toks = pre @ flat (Elem n a kids) @ flats sibs @ [EndElement bn], final = fin\<rparr>) =
           (case unm (body.Content b) n a (flats kids) of
              Inl err \<Rightarrow> Inl err
            | Inr c \<Rightarrow> Inr (b\<lparr>body.Content := c\<rparr>)) \<and>
         (isl (unm (body.Content b) n a (flats kids)) \<or>
          snd (UnmarshalXML unm b
                 \<lparr>toks = pre @ flat (Elem n a kids) @ flats sibs @ [EndElement bn], final = fin\<rparr>) =
            \<lparr>toks = [], final = fin\<rparr>)"
  using assms
  by (simp add: UnmarshalXML_def body_loop_prefix body_loop_first del: flat.simps split: sum.splits)

text \<open>
  The witness: a body with two \<^verbatim>\<open>Fault\<close> elements, after some white space and a
  comment. The destination gets the message of the first one.
\<close>

theorem extractor_first_element_wins_witness:
  "\<not> is_start (CharData '' '') \<and> \<not> is_start (Comment ''x'') \<and>
   UnmarshalXML unmarshal_Fault \<lparr>body.XMLName = ([], ''Body''), body.Content = Fault_zero\<rparr>
     \<lparr>toks = [CharData '' '', Comment ''x''] @
        flat (Elem ([], ''Fault'') [] [Elem ([], ''faultstring'') [] [Text ''first'']]) @
        flats [Text '' '', Elem ([], ''Fault'') [] [Elem ([], ''faultstring'') [] [Text ''second'']]] @
        [EndElement ([], ''Body'')],
      final = EOF\<rparr> =
   (Inr \<lparr>body.XMLName = ([], ''Body''),
         body.Content = \<lparr>Fault.XMLName = ([], ''Fault''), Faultstring = ''first''\<rparr>\<rparr>,
    \<lparr>toks = [], final = EOF\<rparr>)"
  using extractor_first_element_wins [of "[CharData '' '', Comment ''x'']" unmarshal_Fault
      "\<lparr>body.XMLName = ([], ''Body''), body.Content = Fault_zero\<rparr>" "([], ''Fault'')" "[]"
      "[Elem ([], ''faultstring'') [] [Text ''first'']]"
      "[Text '' '', Elem ([], ''Fault'') [] [Elem ([], ''faultstring'') [] [Text ''second'']]]"
      "([], ''Body'')" EOF]
  by (simp add: unmarshal_Fault_def Fault_zero_def flats_def prod_eq_iff)

section \<open>The empty body\<close>

lemma element_rest_plain:
  "\<forall>t\<in>set ts. \<not> is_start t \<and> \<not> is_end t \<Longrightarrow>
   element_rest depth (ts @ rest) = map_option (\<lambda>(inner, r). (ts @ inner, r)) (element_rest depth rest)"
  by (induction ts) (auto simp: option.map_comp comp_def case_prod_unfold option.map_ident)

lemma envelope_fields_plain:
  "\<forall>t\<in>set ts. \<not> is_start t \<and> \<not> is_end t \<Longrightarrow>
   envelope_fields unm b fin depth (ts @ rest) = envelope_fields unm b fin depth rest"
proof (induction ts)
  case Nil
  show ?case by simp
next
  case (Cons t ts)
  then show ?case by (cases t) simp_all
qed

lemma find_start_prefix:
  "\<forall>t\<in>set pre. \<not> is_start t \<Longrightarrow> find_start (pre @ StartElement n a # ts) = Some (n, a, ts)"
proof (induction pre)
  case Nil
  show ?case by simp
next
  case (Cons t pre)
  then show ?case by (cases t) simp_all
qed

lemma Decode_empty_body:
  assumes pre: "\<forall>t\<in>set pre. \<not> is_start t"
    and ts: "\<forall>t\<in>set ts. \<not> is_start t \<and> \<not> is_end t"
    and d: "toks d = pre @ StartElement (envelope_ns, ''Envelope'') ea # StartElement (bs, ''Body'') ba #
              ts @ EndElement bn # EndElement en # post"
  shows "Decode unm env d = Inr (env\<lparr>envelope.XMLName := (envelope_ns, ''Envelope'')\<rparr>)"
proof -
  have er: "element_rest 0 (ts @ EndElement bn # EndElement en # post) = Some (ts, EndElement en # post)"
    using ts by (simp add: element_rest_plain)
  have ns: "\<forall>t\<in>set (ts @ [EndElement (bs, ''Body'')]). \<not> is_start t"
    using ts by simp
  have um: "UnmarshalXML unm (envelope.Body env) \<lparr>toks = ts @ [EndElement (bs, ''Body'')], final = EOF\<rparr>
      = (Inr (envelope.Body env), \<lparr>toks = [], final = EOF\<rparr>)"
    using ns by (simp add: UnmarshalXML_def body_loop_no_start del: set_append)
  have ef: "envelope_fields unm (envelope.Body env) (final d) 0
       (StartElement (bs, ''Body'') ba # ts @ EndElement bn # EndElement en # post) = Inr (envelope.Body env)"
    using er um ts by (simp add: envelope_fields_plain)
  show ?thesis
    using pre d ef by (simp add: Decode_def find_start_prefix)
qed


text \<open>
  Claim C6. On a body without a start element \<^verbatim>\<open>body.UnmarshalXML\<close> returns no error
  and leaves the body, and with it the destination, as it was; and a response with status
  200 whose envelope holds such a body makes \<open>call\<close> return the destination unchanged.
\<close>

theorem empty_body_is_success:
  "((\<forall>t\<in>set ts. \<not> is_start t) \<longrightarrow>
      UnmarshalXML unm b \<lparr>toks = ts, final = EOF\<rparr> = (Inr b, \<lparr>toks = [], final = EOF\<rparr>)) \<and>
   (StatusCode resp = 200 \<and> response_reader L resp = Inr r \<and>
    toks (NewDecoder L r) =
      pre @ StartElement (envelope_ns, ''Envelope'') ea # StartElement (bs, ''Body'') ba #
        ts' @ EndElement bn # EndElement en # post \<and>
    (\<forall>t\<in>set pre. \<not> is_start t) \<and> (\<forall>t\<in>set ts'. \<not> is_start t \<and> \<not> is_end t) \<longrightarrow>
      call_response L unm' resp rs = Inr rs)"
proof (intro conjI impI)
  assume "\<forall>t\<in>set ts. \<not> is_start t"
  then show "UnmarshalXML unm b \<lparr>toks = ts, final = EOF\<rparr> = (Inr b, \<lparr>toks = [], final = EOF\<rparr>)"
    by (simp add: UnmarshalXML_def body_loop_no_start)
next
  assume h: "StatusCode resp = 200 \<and> response_reader L resp = Inr r \<and>
    toks (NewDecoder L r) =
      pre @ StartElement (envelope_ns, ''Envelope'') ea # StartElement (bs, ''Body'') ba #
        ts' @ EndElement bn # EndElement en # post \<and>
    (\<forall>t\<in>set pre. \<not> is_start t) \<and> (\<forall>t\<in>set ts'. \<not> is_start t \<and> \<not> is_end t)"
  then have "Decode unm' (envelope_of rs) (NewDecoder L r) =
      Inr ((envelope_of rs)\<lparr>envelope.XMLName := (envelope_ns, ''Envelope'')\<rparr>)"
    using Decode_empty_body [of pre ts' "NewDecoder L r" ea bs ba bn en post unm' "envelope_of rs"] by simp
  with h show "call_response L unm' resp rs = Inr rs"
    by (simp add: call_response_def envelope_of_def)
qed

theorem empty_body_is_success_witness:
  "\<not> is_start (CharData '' '') \<and> \<not> is_start (EndElement (envelope_ns, ''Body'')) \<and>
   UnmarshalXML unmarshal_logOnResponse
     \<lparr>body.XMLName = ([], []), body.Content = \<lparr>logOnResponse.XMLName = ([], []), LogOnResult = True\<rparr>\<rparr>
     \<lparr>toks = [CharData '' '', EndElement (envelope_ns, ''Body'')], final = EOF\<rparr> =
     (Inr \<lparr>body.XMLName = ([], []), body.Content = \<lparr>logOnResponse.XMLName = ([], []), LogOnResult = True\<rparr>\<rparr>,
      \<lparr>toks = [], final = EOF\<rparr>) \<and>
   StatusCode (plain_response 200 ''200 OK'') = 200 \<and>
   call_response (fixed_lib (Inr (plain_response 200 ''200 OK'')) bad_header (soap_document [CharData '' '']))
     unmarshal_logOnResponse (plain_response 200 ''200 OK'')
     \<lparr>logOnResponse.XMLName = ([], []), LogOnResult = True\<rparr> =
     Inr \<lparr>logOnResponse.XMLName = ([], []), LogOnResult = True\<rparr>"
  using empty_body_is_success [of "[CharData '' '', EndElement (envelope_ns, ''Body'')]"
      unmarshal_logOnResponse
      "\<lparr>body.XMLName = ([], []), body.Content = \<lparr>logOnResponse.XMLName = ([], []), LogOnResult = True\<rparr>\<rparr>"
      "plain_response 200 ''200 OK''"
      "fixed_lib (Inr (plain_response 200 ''200 OK'')) bad_header (soap_document [CharData '' ''])"
      "\<lparr>data = [], rerr = EOF\<rparr>"
      "[ProcInst ''xml'' ''version=\"1.0\" encoding=\"UTF-8\"'']"
      "[((''xmlns'', ''SOAP-ENV''), envelope_ns)]" envelope_ns "[]" "[CharData '' '']"
      "(envelope_ns, ''Body'')" "(envelope_ns, ''Envelope'')" "[]"
      unmarshal_logOnResponse "\<lparr>logOnResponse.XMLName = ([], []), LogOnResult = True\<rparr>"]
  by (simp add: plain_response_def fixed_lib_def response_reader_def Header_Get_def soap_document_def)

section \<open>The envelope read back\<close>

lemma envelope_fields_flats_aux:
  assumes "\<And>n depth b ts. n \<in> set ns \<Longrightarrow> 0 < depth \<Longrightarrow>
             envelope_fields unm b fin depth (flat n @ ts) = envelope_fields unm b fin depth ts"
    and "0 < depth"
  shows "envelope_fields unm b fin depth (flats ns @ ts) = envelope_fields unm b fin depth ts"
  using assms by (induction ns) (simp_all add: flats_Nil flats_Cons)

lemma envelope_fields_flat:
  "0 < depth \<Longrightarrow> envelope_fields unm b fin depth (flat n @ ts) = envelope_fields unm b fin depth ts"
proof (induction n arbitrary: depth b ts)
  case (Elem nm a kids)
  have "envelope_fields unm b fin (Suc depth) (flats kids @ EndElement nm # ts) =
        envelope_fields unm b fin (Suc depth) (EndElement nm # ts)"
    using Elem.IH by (rule envelope_fields_flats_aux) simp_all
  then show ?case using Elem.prems by (simp add: flats_def)
qed simp_all

text \<open>
  What \<open>call\<close> writes, \<open>call\<close> reads: when the marshaller writes a payload as one
  well-formed element, decoding the encoded envelope hands exactly that element to the
  unmarshaller of the destination, and the content of the body is what the unmarshaller
  makes of it.
\<close>

lemma Decode_Encode:
  assumes "mar v = Inr (flat (Elem n a kids))"
  shows "\<exists>doc. Encode mar (envelope_of v) = Inr doc \<and>
           Decode unm (envelope_of d0) \<lparr>toks = doc, final = fin\<rparr> =
             (case unm d0 n a (flats kids) of
                Inl e \<Rightarrow> Inl e
              | Inr d \<Rightarrow>
                  Inr \<lparr>envelope.XMLName = (envelope_ns, ''Envelope''),
                       envelope.Body = \<lparr>body.XMLName = ([], []), body.Content = d\<rparr>\<rparr>)"
proof -
  let ?elem = "flat (Elem n a kids)"
  let ?tail = "[EndElement ([], ''Body''), EndElement (envelope_ns, ''Envelope'')]"
  let ?b = "\<lparr>body.XMLName = ([], []), body.Content = d0\<rparr>"
  have enc: "Encode mar (envelope_of v) =
      Inr ([StartElement (envelope_ns, ''Envelope'') [], StartElement ([], ''Body'') []] @ ?elem @ ?tail)"
    using assms by (simp add: Encode_def envelope_of_def)
  have er: "element_rest 0 (?elem @ ?tail) = Some (?elem, [EndElement (envelope_ns, ''Envelope'')])"
    using element_rest_closed [of "[Elem n a kids]" "([], ''Body'')" "[EndElement (envelope_ns, ''Envelope'')]"]
    by (simp add: flats_def)
  have bl: "body_loop unm ?b EOF (?elem @ flats [] @ [EndElement ([], ''Body'')]) =
      (case unm d0 n a (flats kids) of
         Inl err \<Rightarrow> (Inl err, flats [] @ [EndElement ([], ''Body'')])
       | Inr c \<Rightarrow> (Inr (?b\<lparr>body.Content := c\<rparr>), []))"
    using body_loop_first [of unm ?b EOF n a kids "[]" "([], ''Body'')"] by simp
  have through: "\<And>b'. envelope_fields unm b' fin (Suc 0) (?elem @ ?tail) = Inr b'"
    using envelope_fields_flat [of "Suc 0" unm _ fin "Elem n a kids" ?tail] by simp
  have ef: "envelope_fields unm ?b fin 0 (StartElement ([], ''Body'') [] # ?elem @ ?tail) =
      (case unm d0 n a (flats kids) of
         Inl e \<Rightarrow> Inl e
       | Inr d \<Rightarrow> Inr \<lparr>body.XMLName = ([], []), body.Content = d\<rparr>)"
  proof (cases "unm d0 n a (flats kids)")
    case (Inl e)
    then show ?thesis
      using er bl by (simp add: UnmarshalXML_def flats_Nil del: flat.simps)
  next
    case (Inr d)
    then show ?thesis
      using er bl through [of "\<lparr>body.XMLName = ([], []), body.Content = d\<rparr>"]
      by (simp add: UnmarshalXML_def flats_Nil del: flat.simps)
  qed
  have "Decode unm (envelope_of d0)
          \<lparr>toks = [StartElement (envelope_ns, ''Envelope'') [], StartElement ([], ''Body'') []] @ ?elem @ ?tail,
           final = fin\<rparr> =
        (case unm d0 n a (flats kids) of
           Inl e \<Rightarrow> Inl e
         | Inr d \<Rightarrow>
             Inr \<lparr>envelope.XMLName = (envelope_ns, ''Envelope''),
                  envelope.Body = \<lparr>body.XMLName = ([], []), body.Content = d\<rparr>\<rparr>)"
    using ef by (simp add: Decode_def envelope_of_def del: flat.simps envelope_fields.simps split: sum.splits)
  with enc show ?thesis by simp
qed

section \<open>Status 200 and the other statuses\<close>

text \<open>The definitions that evaluate the examples.\<close>

lemmas eval_defs =
  call_def client_call_def daisyonline_call_def Encode_def client_Encode_def daisyonline_Marshal_def
  envelope_of_def marshal_logOn_def NewRequest_def fixed_lib_def
  call_response_def client_call_response_def daisyonline_call_response_def
  response_reader_def plain_response_def Header_Get_def Header_Add_def add_headers_def daisyonline_add_headers_def
  Decode_def Decode_envelopeResponse_def Unmarshal_def envelopeResponse_zero_def
  soap_document_def fault_element_def logOnResponse_element_def
  UnmarshalXML_def DecodeElement_def Skip_def unmarshal_Fault_def Fault_zero_def envelope_ns_def daisy_ns_def
  unmarshal_logOnResponse_def unmarshal_logOffResponse_def marshal_logOff_def
  logOffResponse_element_def gzip_response_def bad_checksum_def bad_header_def
  client0_def world0_def fault_lib_def bare_fault_lib_def ok_fault_lib_def refused_lib_def logOff_lib_def checksum_lib_def
  truncated_lib_def header_lib_def logOn_args_def logOnResponse_zero_def logOn_request_def
  daisyonline_logOn_request_def


text \<open>
  When a request has been handed to \<^verbatim>\<open>httpClient.Do\<close> and answered, the result of
  \<open>call\<close> is what the second half of \<open>call\<close> makes of the response.
\<close>

lemma call_answered:
  assumes "sent (snd (call L mar unm c action args rs w)) = sent w @ [req]"
    and "Do L (sent w) req = Inr resp"
  shows "fst (call L mar unm c action args rs w) = call_response L unm resp rs"
  using assms by (auto simp: call_def Let_def split: sum.splits)

lemma client_call_answered:
  assumes "sent (snd (client_call L mar unm c action args rs w)) = sent w @ [req]"
    and "Do L (sent w) req = Inr resp"
  shows "fst (client_call L mar unm c action args rs w) = client_call_response L unm resp rs"
  using assms by (auto simp: client_call_def Let_def split: sum.splits)

lemma daisyonline_call_answered:
  assumes "sent (snd (daisyonline_call L mar unm c action args rs w)) = sent w @ [req]"
    and "Do L (sent w) req = Inr resp"
  shows "fst (daisyonline_call L mar unm c action args rs w) = Return (daisyonline_call_response L unm resp rs)"
  using assms by (auto simp: daisyonline_call_def Let_def split: sum.splits)












lemma call_response_not_ok:
  assumes "StatusCode resp \<noteq> 200"
  shows "call_response L unm resp rs =
        (case response_reader L resp of
           Inl e \<Rightarrow> Inl (Lib e)
         | Inr r \<Rightarrow>
             (case Decode unmarshal_Fault (envelope_of Fault_zero) (NewDecoder L r) of
                Inl e \<Rightarrow> Inl (Lib e)
              | Inr env \<Rightarrow> Inl (Errorf ''fault: '' (FaultError (body.Content (envelope.Body env))))))"
  using assms by (simp add: call_response_def Let_def split: sum.splits)

lemma client_call_response_not_ok:
  assumes "StatusCode resp \<noteq> 200"
  shows "client_call_response L unm resp rs =
        (case response_reader L resp of
           Inl e \<Rightarrow> Inl (Lib e)
         | Inr r \<Rightarrow>
             (case Decode_envelopeResponse envelopeResponse_zero (NewDecoder L r) of
                Inl e \<Rightarrow> Inl (Lib e)
              | Inr env \<Rightarrow>
                  (case Unmarshal unmarshal_Fault (envelopeResponse_Body.Content (envelopeResponse.Body env)) Fault_zero of
                     Inl e \<Rightarrow> Inl (Lib e)
                   | Inr f \<Rightarrow> Inl (FaultError f))))"
  using assms by (simp add: client_call_response_def split: sum.splits)

lemma call_response_not_ok_error:
  "StatusCode resp \<noteq> 200 \<Longrightarrow> isl (call_response L unm resp rs)"
  by (simp add: call_response_def Let_def split: sum.splits)

lemma client_call_response_not_ok_error:
  "StatusCode resp \<noteq> 200 \<Longrightarrow> isl (client_call_response L unm resp rs)"
  by (simp add: client_call_response_def split: sum.splits)

text \<open>
  Claim C1, as amended. When the response has a status other than 200, the two clients of
  the package \<^verbatim>\<open>dodp\<close> decode the body as a \<^verbatim>\<open>Fault\<close> and return an error in every
  case: the error of the gzip reader or of the decoding, or else the decoded \<^verbatim>\<open>Fault\<close>
  (the \<^verbatim>\<open>Fault\<close> itself in \<^verbatim>\<open>client.go\<close>, the \<^verbatim>\<open>Fault\<close> wrapped with the prefix
  \<open>fault: \<close> in the client with a context). The client of the package \<^verbatim>\<open>daisyonline\<close>
  does not read the body: it returns the status text of the response as its error.
\<close>

theorem non_success_status_is_an_error:
  "(sent (snd (call L mar unm c action args rs w)) = sent w @ [req] \<and>
    Do L (sent w) req = Inr resp \<and> StatusCode resp \<noteq> 200 \<longrightarrow>
      isl (fst (call L mar unm c action args rs w)) \<and>
      fst (call L mar unm c action args rs w) =
        (case response_reader L resp of
           Inl e \<Rightarrow> Inl (Lib e)
         | Inr r \<Rightarrow>
             (case Decode unmarshal_Fault (envelope_of Fault_zero) (NewDecoder L r) of
                Inl e \<Rightarrow> Inl (Lib e)
              | Inr env \<Rightarrow> Inl (Errorf ''fault: '' (FaultError (body.Content (envelope.Body env))))))) \<and>
   (sent (snd (client_call L' mar' unm' c' action' args' rs' w')) = sent w' @ [req'] \<and>
    Do L' (sent w') req' = Inr resp' \<and> StatusCode resp' \<noteq> 200 \<longrightarrow>
      isl (fst (client_call L' mar' unm' c' action' args' rs' w')) \<and>
      fst (client_call L' mar' unm' c' action' args' rs' w') =
        (case response_reader L' resp' of
           Inl e \<Rightarrow> Inl (Lib e)
         | Inr r \<Rightarrow>
             (case Decode_envelopeResponse envelopeResponse_zero (NewDecoder L' r) of
                Inl e \<Rightarrow> Inl (Lib e)
              | Inr env \<Rightarrow>
                  (case Unmarshal unmarshal_Fault (envelopeResponse_Body.Content (envelopeResponse.Body env)) Fault_zero of
                     Inl e \<Rightarrow> Inl (Lib e)
                   | Inr f \<Rightarrow> Inl (FaultError f))))) \<and>
   (sent (snd (daisyonline_call L'' mar'' unm'' c'' action'' args'' rs'' w'')) = sent w'' @ [req''] \<and>
    Do L'' (sent w'') req'' = Inr resp'' \<and> StatusCode resp'' \<noteq> 200 \<longrightarrow>
      fst (daisyonline_call L'' mar'' unm'' c'' action'' args'' rs'' w'') =
        Return (Inl (ErrorString (Status resp''))))"
proof (intro conjI impI)
  assume h: "sent (snd (call L mar unm c action args rs w)) = sent w @ [req] \<and>
    Do L (sent w) req = Inr resp \<and> StatusCode resp \<noteq> 200"
  then have e: "fst (call L mar unm c action args rs w) = call_response L unm resp rs"
    by (simp add: call_answered)
  show "isl (fst (call L mar unm c action args rs w))"
    using h e by (simp add: call_response_not_ok_error)
  show "fst (call L mar unm c action args rs w) =
        (case response_reader L resp of
           Inl e \<Rightarrow> Inl (Lib e)
         | Inr r \<Rightarrow>
             (case Decode unmarshal_Fault (envelope_of Fault_zero) (NewDecoder L r) of
                Inl e \<Rightarrow> Inl (Lib e)
              | Inr env \<Rightarrow> Inl (Errorf ''fault: '' (FaultError (body.Content (envelope.Body env))))))"
    using h e by (simp add: call_response_not_ok)
next
  assume h: "sent (snd (client_call L' mar' unm' c' action' args' rs' w')) = sent w' @ [req'] \<and>
    Do L' (sent w') req' = Inr resp' \<and> StatusCode resp' \<noteq> 200"
  then have e: "fst (client_call L' mar' unm' c' action' args' rs' w') = client_call_response L' unm' resp' rs'"
    by (simp add: client_call_answered)
  show "isl (fst (client_call L' mar' unm' c' action' args' rs' w'))"
    using h e by (simp add: client_call_response_not_ok_error)
  show "fst (client_call L' mar' unm' c' action' args' rs' w') =
        (case response_reader L' resp' of
           Inl e \<Rightarrow> Inl (Lib e)
         | Inr r \<Rightarrow>
             (case Decode_envelopeResponse envelopeResponse_zero (NewDecoder L' r) of
                Inl e \<Rightarrow> Inl (Lib e)
              | Inr env \<Rightarrow>
                  (case Unmarshal unmarshal_Fault (envelopeResponse_Body.Content (envelopeResponse.Body env)) Fault_zero of
                     Inl e \<Rightarrow> Inl (Lib e)
                   | Inr f \<Rightarrow> Inl (FaultError f))))"
    using h e by (simp add: client_call_response_not_ok)
next
  assume h: "sent (snd (daisyonline_call L'' mar'' unm'' c'' action'' args'' rs'' w'')) = sent w'' @ [req''] \<and>
    Do L'' (sent w'') req'' = Inr resp'' \<and> StatusCode resp'' \<noteq> 200"
  then have "fst (daisyonline_call L'' mar'' unm'' c'' action'' args'' rs'' w'') =
     Return (daisyonline_call_response L'' unm'' resp'' rs'')"
    by (simp add: daisyonline_call_answered)
  with h show "fst (daisyonline_call L'' mar'' unm'' c'' action'' args'' rs'' w'') =
        Return (Inl (ErrorString (Status resp'')))"
    by (simp add: daisyonline_call_response_def)
qed

text \<open>
  The witness: a server that answers the sign-on with status 500 and the body
  \<^verbatim>\<open><Fault><faultstring>Invalid credentials</faultstring></Fault>\<close>.
\<close>

theorem non_success_status_is_an_error_witness:
  "StatusCode (plain_response 500 ''500 Internal Server Error'') \<noteq> 200 \<and>
   fst (call fault_lib marshal_logOn unmarshal_logOnResponse client0 ''logOn'' logOn_args logOnResponse_zero world0) =
     Inl (Errorf ''fault: ''
           (FaultError \<lparr>Fault.XMLName = ([], ''Fault''), Faultstring = ''Invalid credentials''\<rparr>)) \<and>
   fst (client_call fault_lib marshal_logOn unmarshal_logOnResponse client0 ''logOn'' logOn_args logOnResponse_zero world0) =
     Inl (FaultError \<lparr>Fault.XMLName = ([], ''Fault''), Faultstring = ''Invalid credentials''\<rparr>) \<and>
   fst (daisyonline_call fault_lib marshal_logOn unmarshal_logOnResponse client0 ''logOn'' logOn_args logOnResponse_zero world0) =
     Return (Inl (ErrorString ''500 Internal Server Error''))"
  using non_success_status_is_an_error
    [where L = fault_lib and mar = marshal_logOn and unm = unmarshal_logOnResponse and c = client0
       and action = "''logOn''" and args = logOn_args and rs = logOnResponse_zero and w = world0
       and req = logOn_request and resp = "plain_response 500 ''500 Internal Server Error''"
       and L' = fault_lib and mar' = marshal_logOn and unm' = unmarshal_logOnResponse and c' = client0
       and action' = "''logOn''" and args' = logOn_args and rs' = logOnResponse_zero and w' = world0
       and req' = logOn_request and resp' = "plain_response 500 ''500 Internal Server Error''"
       and L'' = fault_lib and mar'' = marshal_logOn and unm'' = unmarshal_logOnResponse and c'' = client0
       and action'' = "''logOn''" and args'' = logOn_args and rs'' = logOnResponse_zero and w'' = world0
       and req'' = daisyonline_logOn_request
       and resp'' = "plain_response 500 ''500 Internal Server Error''"]
  by (simp add: eval_defs)

text \<open>
  Claim C1 as it was stated fails on the client of the package \<^verbatim>\<open>daisyonline\<close>: against
  that server the body, which holds a \<^verbatim>\<open>Fault\<close>, is never decoded, and the error is
  neither a \<^verbatim>\<open>Fault\<close> nor an error of decoding.
\<close>

theorem daisyonline_status_error_counterexample:
  "StatusCode (plain_response 500 ''500 Internal Server Error'') \<noteq> 200 \<and>
   fst (daisyonline_call fault_lib marshal_logOn unmarshal_logOnResponse client0 ''logOn'' logOn_args
          logOnResponse_zero world0) =
     Return (Inl (ErrorString ''500 Internal Server Error'')) \<and>
   as_Fault (ErrorString ''500 Internal Server Error'') = None \<and>
   call_response fault_lib unmarshal_logOnResponse (plain_response 500 ''500 Internal Server Error'')
     logOnResponse_zero =
     Inl (Errorf ''fault: ''
           (FaultError \<lparr>Fault.XMLName = ([], ''Fault''), Faultstring = ''Invalid credentials''\<rparr>))"
  by (simp add: eval_defs)

section \<open>The sign-on that the server refuses\<close>

text \<open>
  Claim C5, as amended. Against a server that answers with status 500 and the body
  \<^verbatim>\<open><Fault><faultstring>Invalid credentials</faultstring></Fault>\<close>, \<^verbatim>\<open>LogOn\<close> returns
  \<open>false\<close> and an error that holds the \<^verbatim>\<open>Fault\<close> with the message
  \<open>Invalid credentials\<close>. In \<^verbatim>\<open>client.go\<close> the error is that \<^verbatim>\<open>Fault\<close> and its message is
  exactly \<open>Invalid credentials\<close>; the client with a context wraps it twice, and the message
  of its error is \<open>logOn operation: fault: Invalid credentials\<close>.
\<close>

theorem LogOn_invalid_credentials:
  "fst (LogOn fault_lib marshal_logOn unm c username password w) =
     (False,
      Some (Errorf ''logOn operation: ''
             (Errorf ''fault: ''
               (FaultError \<lparr>Fault.XMLName = ([], ''Fault''), Faultstring = ''Invalid credentials''\<rparr>)))) \<and>
   map_option Error (snd (fst (LogOn fault_lib marshal_logOn unm c username password w))) =
     Some ''logOn operation: fault: Invalid credentials'' \<and>
   map_option (map_option Faultstring \<circ> as_Fault)
       (snd (fst (LogOn fault_lib marshal_logOn unm c username password w))) =
     Some (Some ''Invalid credentials'') \<and>
   fst (client_LogOn fault_lib marshal_logOn unm' c' username' password' w') =
     (False, Some (FaultError \<lparr>Fault.XMLName = ([], ''Fault''), Faultstring = ''Invalid credentials''\<rparr>)) \<and>
   map_option Error (snd (fst (client_LogOn fault_lib marshal_logOn unm' c' username' password' w'))) =
     Some ''Invalid credentials''"
  by (simp add: LogOn_def client_LogOn_def eval_defs)

text \<open>
  Claim C5 as it was stated fails on the client with a context: the message of the error
  is not \<open>Invalid credentials\<close>.
\<close>

theorem LogOn_message_counterexample:
  "map_option Error
     (snd (fst (LogOn fault_lib marshal_logOn unmarshal_logOnResponse client0 ''u'' ''p'' world0)))
   \<noteq> Some ''Invalid credentials''"
  by (simp add: LogOn_def eval_defs)

text \<open>
  The fault has to come inside an envelope. When the body of the response is the
  \<^verbatim>\<open>Fault\<close> element alone, both clients fail to decode it, and the message of the remote
  service is lost.
\<close>

lemma LogOn_bare_fault_document:
  "fst (LogOn bare_fault_lib marshal_logOn unm c username password w) =
     (False,
      Some (Errorf ''logOn operation: ''
             (Lib (UnmarshalError ''expected element type <Envelope> but have <Fault>'')))) \<and>
   fst (client_LogOn bare_fault_lib marshal_logOn unm' c' username' password' w') =
     (False, Some (Lib (UnmarshalError ''expected element type <Envelope> but have <Fault>'')))"
  by (simp add: LogOn_def client_LogOn_def eval_defs)

section \<open>Compressed responses\<close>












section \<open>The request\<close>

lemma call_sent:
  "(sent (snd (call L mar unm c action args rs w)) = sent w \<or>
    (\<exists>body. sent (snd (call L mar unm c action args rs w)) =
       sent w @
       [\<lparr>Method = ''POST'', URL = url c,
         request.Header =
           [(''Content-Type'', ''text/xml; charset=utf-8''), (''Accept'', ''text/xml''),
            (''Accept-Encoding'', ''gzip''), (''SOAPAction'', ''/'' @ action)],
         request.Body = xml_Header @ body\<rparr>])) \<and>
   (sent (snd (call L mar unm c action args rs w)) \<noteq> sent w) =
     (\<not> isl (mar args) \<and> url_error L (url c) = None)"
  by (auto simp: call_def Encode_def envelope_of_def NewRequest_def add_headers_def Header_Add_def Let_def
      split: sum.splits option.splits)

lemma client_call_sent:
  "(sent (snd (client_call L mar unm c action args rs w)) = sent w \<or>
    (\<exists>body. sent (snd (client_call L mar unm c action args rs w)) =
       sent w @
       [\<lparr>Method = ''POST'', URL = url c,
         request.Header =
           [(''Content-Type'', ''text/xml; charset=utf-8''), (''Accept'', ''text/xml''),
            (''Accept-Encoding'', ''gzip''), (''SOAPAction'', ''/'' @ action)],
         request.Body = xml_Header @ body\<rparr>])) \<and>
   (sent (snd (client_call L mar unm c action args rs w)) \<noteq> sent w) =
     (\<not> isl (mar args) \<and> url_error L (url c) = None)"
  by (auto simp: client_call_def client_Encode_def NewRequest_def add_headers_def Header_Add_def Let_def
      split: sum.splits option.splits)

lemma daisyonline_call_sent:
  "(sent (snd (daisyonline_call L mar unm c action args rs w)) = sent w \<or>
    (\<exists>body. sent (snd (daisyonline_call L mar unm c action args rs w)) =
       sent w @
       [\<lparr>Method = ''POST'', URL = url c,
         request.Header =
           [(''Content-Type'', ''text/xml; charset=utf-8''), (''Accept'', ''text/xml''),
            (''SOAPAction'', ''/'' @ action)],
         request.Body = xml_Header @ body\<rparr>])) \<and>
   (sent (snd (daisyonline_call L mar unm c action args rs w)) \<noteq> sent w) =
     (\<not> isl (mar args) \<and> url_error L (url c) = None)"
  by (auto simp: daisyonline_call_def daisyonline_Marshal_def NewRequest_def daisyonline_add_headers_def
      Header_Add_def Let_def split: sum.splits option.splits)

text \<open>
  Claim C8, as amended. Each \<open>call\<close> hands at most one request to \<^verbatim>\<open>httpClient.Do\<close>,
  and exactly one when the envelope could be encoded and the URL was accepted. It is a POST
  to the client's URL whose body starts with the XML declaration. In the two clients of the
  package \<^verbatim>\<open>dodp\<close> its headers are the four of the claim, with \<open>SOAPAction\<close> set to
  \<open>/\<close> followed by the name of the operation; the client of the package \<^verbatim>\<open>daisyonline\<close>
  sends the same headers without \<open>Accept-Encoding\<close>.
\<close>

theorem one_post_with_fixed_headers:
  "((sent (snd (call L mar unm c action args rs w)) = sent w \<or>
     (\<exists>body. sent (snd (call L mar unm c action args rs w)) =
        sent w @
        [\<lparr>Method = ''POST'', URL = url c,
          request.Header =
            [(''Content-Type'', ''text/xml; charset=utf-8''), (''Accept'', ''text/xml''),
             (''Accept-Encoding'', ''gzip''), (''SOAPAction'', ''/'' @ action)],
          request.Body = xml_Header @ body\<rparr>])) \<and>
    (sent (snd (call L mar unm c action args rs w)) \<noteq> sent w) =
      (\<not> isl (mar args) \<and> url_error L (url c) = None)) \<and>
   ((sent (snd (client_call L mar' unm' c action args' rs' w)) = sent w \<or>
     (\<exists>body. sent (snd (client_call L mar' unm' c action args' rs' w)) =
        sent w @
        [\<lparr>Method = ''POST'', URL = url c,
          request.Header =
            [(''Content-Type'', ''text/xml; charset=utf-8''), (''Accept'', ''text/xml''),
             (''Accept-Encoding'', ''gzip''), (''SOAPAction'', ''/'' @ action)],
          request.Body = xml_Header @ body\<rparr>])) \<and>
    (sent (snd (client_call L mar' unm' c action args' rs' w)) \<noteq> sent w) =
      (\<not> isl (mar' args') \<and> url_error L (url c) = None)) \<and>
   ((sent (snd (daisyonline_call L mar'' unm'' c action args'' rs'' w)) = sent w \<or>
     (\<exists>body. sent (snd (daisyonline_call L mar'' unm'' c action args'' rs'' w)) =
        sent w @
        [\<lparr>Method = ''POST'', URL = url c,
          request.Header =
            [(''Content-Type'', ''text/xml; charset=utf-8''), (''Accept'', ''text/xml''),
             (''SOAPAction'', ''/'' @ action)],
          request.Body = xml_Header @ body\<rparr>])) \<and>
    (sent (snd (daisyonline_call L mar'' unm'' c action args'' rs'' w)) \<noteq> sent w) =
      (\<not> isl (mar'' args'') \<and> url_error L (url c) = None))"
  by (intro conjI call_sent [THEN conjunct1] call_sent [THEN conjunct2]
      client_call_sent [THEN conjunct1] client_call_sent [THEN conjunct2]
      daisyonline_call_sent [THEN conjunct1] daisyonline_call_sent [THEN conjunct2])

text \<open>
  Claim C8 as it was stated fails on the client of the package \<^verbatim>\<open>daisyonline\<close>: the one
  request of its sign-on carries three headers, and \<open>Accept-Encoding\<close> is not among them.
\<close>

theorem daisyonline_headers_counterexample:
  "map request.Header
     (sent (snd (daisyonline_call fault_lib marshal_logOn unmarshal_logOnResponse client0 ''logOn''
                   logOn_args logOnResponse_zero world0))) =
     [[(''Content-Type'', ''text/xml; charset=utf-8''), (''Accept'', ''text/xml''),
       (''SOAPAction'', ''/logOn'')]] \<and>
   Header_Get
     [(''Content-Type'', ''text/xml; charset=utf-8''), (''Accept'', ''text/xml''),
      (''SOAPAction'', ''/logOn'')] ''Accept-Encoding'' = []"
  by (simp add: eval_defs)

section \<open>Idle connections\<close>

lemma call_idle: "idle_closed (snd (call L mar unm c action args rs w)) = idle_closed w"
  by (simp add: call_def Let_def split: sum.splits)

lemma client_call_idle: "idle_closed (snd (client_call L mar unm c action args rs w)) = idle_closed w"
  by (simp add: client_call_def Let_def split: sum.splits)

lemma daisyonline_call_idle: "idle_closed (snd (daisyonline_call L mar unm c action args rs w)) = idle_closed w"
  by (simp add: daisyonline_call_def Let_def split: sum.splits)

lemma LogOn_idle:
  "idle_closed (snd (LogOn L mar unm c username password w)) = idle_closed w"
  using call_idle [of L mar unm c "''logOn''" "\<lparr>logOn.XMLName = ([], []), logOn.Username = username, logOn.Password = password\<rparr>" "\<lparr>logOnResponse.XMLName = ([], []), logOnResponse.LogOnResult = False\<rparr>" w]
  by (auto simp: LogOn_def Let_def split: prod.splits sum.splits)

lemma LogOff_idle:
  "idle_closed (snd (LogOff L mar unm c w)) =
     (if snd (fst (LogOff L mar unm c w)) = None then Suc (idle_closed w) else idle_closed w)"
  using call_idle [of L mar unm c "''logOff''" "\<lparr>logOff.XMLName = ([], [])\<rparr>" "\<lparr>logOffResponse.XMLName = ([], []), logOffResponse.LogOffResult = False\<rparr>" w]
  by (auto simp: LogOff_def Let_def split: prod.splits sum.splits)

lemma GetServiceAttributes_idle:
  "idle_closed (snd (GetServiceAttributes L mar unm zero_value c w)) = idle_closed w"
  using call_idle [of L mar unm c "''getServiceAttributes''" "\<lparr>getServiceAttributes.XMLName = ([], [])\<rparr>" "\<lparr>getServiceAttributesResponse.XMLName = ([], []), getServiceAttributesResponse.ServiceAttributes = zero_value\<rparr>" w]
  by (auto simp: GetServiceAttributes_def Let_def split: prod.splits sum.splits)

lemma SetReadingSystemAttributes_idle:
  "idle_closed (snd (SetReadingSystemAttributes L mar unm c readingSystemAttributes w)) = idle_closed w"
  using call_idle [of L mar unm c "''setReadingSystemAttributes''" "\<lparr>setReadingSystemAttributes.XMLName = ([], []), setReadingSystemAttributes.ReadingSystemAttributes = readingSystemAttributes\<rparr>" "\<lparr>setReadingSystemAttributesResponse.XMLName = ([], []), setReadingSystemAttributesResponse.SetReadingSystemAttributesResult = False\<rparr>" w]
  by (auto simp: SetReadingSystemAttributes_def Let_def split: prod.splits sum.splits)

lemma GetContentList_idle:
  "idle_closed (snd (GetContentList L mar unm zero_value c id' firstItem lastItem w)) = idle_closed w"
  using call_idle [of L mar unm c "''getContentList''" "\<lparr>getContentList.XMLName = ([], []), getContentList.ID = id', getContentList.FirstItem = firstItem, getContentList.LastItem = lastItem\<rparr>" "\<lparr>getContentListResponse.XMLName = ([], []), getContentListResponse.ContentList = zero_value\<rparr>" w]
  by (auto simp: GetContentList_def Let_def split: prod.splits sum.splits)

lemma GetContentMetadata_idle:
  "idle_closed (snd (GetContentMetadata L mar unm zero_value c contentID w)) = idle_closed w"
  using call_idle [of L mar unm c "''getContentMetadata''" "\<lparr>getContentMetadata.XMLName = ([], []), getContentMetadata.ContentID = contentID\<rparr>" "\<lparr>getContentMetadataResponse.XMLName = ([], []), getContentMetadataResponse.ContentMetadata = zero_value\<rparr>" w]
  by (auto simp: GetContentMetadata_def Let_def split: prod.splits sum.splits)

lemma GetContentResources_idle:
  "idle_closed (snd (GetContentResources L mar unm zero_value c contentID w)) = idle_closed w"
  using call_idle [of L mar unm c "''getContentResources''" "\<lparr>getContentResources.XMLName = ([], []), getContentResources.ContentID = contentID\<rparr>" "\<lparr>getContentResourcesResponse.XMLName = ([], []), getContentResourcesResponse.Resources = zero_value\<rparr>" w]
  by (auto simp: GetContentResources_def Let_def split: prod.splits sum.splits)

lemma IssueContent_idle:
  "idle_closed (snd (IssueContent L mar unm c contentID w)) = idle_closed w"
  using call_idle [of L mar unm c "''issueContent''" "\<lparr>issueContent.XMLName = ([], []), issueContent.ContentID = contentID\<rparr>" "\<lparr>issueContentResponse.XMLName = ([], []), issueContentResponse.IssueContentResult = False\<rparr>" w]
  by (auto simp: IssueContent_def Let_def split: prod.splits sum.splits)

lemma ReturnContent_idle:
  "idle_closed (snd (ReturnContent L mar unm c contentID w)) = idle_closed w"
  using call_idle [of L mar unm c "''returnContent''" "\<lparr>returnContent.XMLName = ([], []), returnContent.ContentID = contentID\<rparr>" "\<lparr>returnContentResponse.XMLName = ([], []), returnContentResponse.ReturnContentResult = False\<rparr>" w]
  by (auto simp: ReturnContent_def Let_def split: prod.splits sum.splits)

lemma GetQuestions_idle:
  "idle_closed (snd (GetQuestions L mar unm zero_value c userResponses w)) = idle_closed w"
  using call_idle [of L mar unm c "''getQuestions''" "\<lparr>getQuestions.XMLName = ([], []), getQuestions.UserResponses = userResponses\<rparr>" "\<lparr>getQuestionsResponse.XMLName = ([], []), getQuestionsResponse.Questions = zero_value\<rparr>" w]
  by (auto simp: GetQuestions_def Let_def split: prod.splits sum.splits)

lemma GetServiceAnnouncements_idle:
  "idle_closed (snd (GetServiceAnnouncements L mar unm zero_value c w)) = idle_closed w"
  using call_idle [of L mar unm c "''getServiceAnnouncements''" "\<lparr>getServiceAnnouncements.XMLName = ([], [])\<rparr>" "\<lparr>getServiceAnnouncementsResponse.XMLName = ([], []), getServiceAnnouncementsResponse.Announcements = zero_value\<rparr>" w]
  by (auto simp: GetServiceAnnouncements_def Let_def split: prod.splits sum.splits)

lemma SetBookmarks_idle:
  "idle_closed (snd (SetBookmarks L mar unm c contentID bookmarkSet w)) = idle_closed w"
  using call_idle [of L mar unm c "''setBookmarks''" "\<lparr>setBookmarks.XMLName = ([], []), setBookmarks.ContentID = contentID, setBookmarks.BookmarkSet = bookmarkSet\<rparr>" "\<lparr>setBookmarksResponse.XMLName = ([], []), setBookmarksResponse.SetBookmarksResult = False\<rparr>" w]
  by (auto simp: SetBookmarks_def Let_def split: prod.splits sum.splits)

lemma GetBookmarks_idle:
  "idle_closed (snd (GetBookmarks L mar unm zero_value c contentID w)) = idle_closed w"
  using call_idle [of L mar unm c "''getBookmarks''" "\<lparr>getBookmarks.XMLName = ([], []), getBookmarks.ContentID = contentID\<rparr>" "\<lparr>getBookmarksResponse.XMLName = ([], []), getBookmarksResponse.BookmarkSet = zero_value\<rparr>" w]
  by (auto simp: GetBookmarks_def Let_def split: prod.splits sum.splits)

lemma MarkAnnouncementsAsRead_idle:
  "idle_closed (snd (MarkAnnouncementsAsRead L mar unm c read w)) = idle_closed w"
  using call_idle [of L mar unm c "''markAnnouncementsAsRead''" "\<lparr>markAnnouncementsAsRead.XMLName = ([], []), markAnnouncementsAsRead.Read = read\<rparr>" "\<lparr>markAnnouncementsAsReadResponse.XMLName = ([], []), markAnnouncementsAsReadResponse.MarkAnnouncementsAsReadResult = False\<rparr>" w]
  by (auto simp: MarkAnnouncementsAsRead_def Let_def split: prod.splits sum.splits)

lemma client_LogOn_idle:
  "idle_closed (snd (client_LogOn L mar unm c username password w)) = idle_closed w"
  using client_call_idle [of L mar unm c "''logOn''" "\<lparr>logOn.XMLName = ([], []), logOn.Username = username, logOn.Password = password\<rparr>" "\<lparr>logOnResponse.XMLName = ([], []), logOnResponse.LogOnResult = False\<rparr>" w]
  by (auto simp: client_LogOn_def Let_def split: prod.splits sum.splits)

lemma client_LogOff_idle:
  "idle_closed (snd (client_LogOff L mar unm c w)) =
     (if snd (fst (client_LogOff L mar unm c w)) = None then Suc (idle_closed w) else idle_closed w)"
  using client_call_idle [of L mar unm c "''logOff''" "\<lparr>logOff.XMLName = ([], [])\<rparr>" "\<lparr>logOffResponse.XMLName = ([], []), logOffResponse.LogOffResult = False\<rparr>" w]
  by (auto simp: client_LogOff_def Let_def split: prod.splits sum.splits)

lemma client_GetServiceAttributes_idle:
  "idle_closed (snd (client_GetServiceAttributes L mar unm zero_value c w)) = idle_closed w"
  using client_call_idle [of L mar unm c "''getServiceAttributes''" "\<lparr>getServiceAttributes.XMLName = ([], [])\<rparr>" "\<lparr>getServiceAttributesResponse.XMLName = ([], []), getServiceAttributesResponse.ServiceAttributes = zero_value\<rparr>" w]
  by (auto simp: client_GetServiceAttributes_def Let_def split: prod.splits sum.splits)

lemma client_SetReadingSystemAttributes_idle:
  "idle_closed (snd (client_SetReadingSystemAttributes L mar unm c readingSystemAttributes w)) = idle_closed w"
  using client_call_idle [of L mar unm c "''setReadingSystemAttributes''" "\<lparr>setReadingSystemAttributes.XMLName = ([], []), setReadingSystemAttributes.ReadingSystemAttributes = readingSystemAttributes\<rparr>" "\<lparr>setReadingSystemAttributesResponse.XMLName = ([], []), setReadingSystemAttributesResponse.SetReadingSystemAttributesResult = False\<rparr>" w]
  by (auto simp: client_SetReadingSystemAttributes_def Let_def split: prod.splits sum.splits)

lemma client_GetContentList_idle:
  "idle_closed (snd (client_GetContentList L mar unm zero_value c id' firstItem lastItem w)) = idle_closed w"
  using client_call_idle [of L mar unm c "''getContentList''" "\<lparr>getContentList.XMLName = ([], []), getContentList.ID = id', getContentList.FirstItem = firstItem, getContentList.LastItem = lastItem\<rparr>" "\<lparr>getContentListResponse.XMLName = ([], []), getContentListResponse.ContentList = zero_value\<rparr>" w]
  by (auto simp: client_GetContentList_def Let_def split: prod.splits sum.splits)

lemma client_GetContentMetadata_idle:
  "idle_closed (snd (client_GetContentMetadata L mar unm zero_value c contentID w)) = idle_closed w"
  using client_call_idle [of L mar unm c "''getContentMetadata''" "\<lparr>getContentMetadata.XMLName = ([], []), getContentMetadata.ContentID = contentID\<rparr>" "\<lparr>getContentMetadataResponse.XMLName = ([], []), getContentMetadataResponse.ContentMetadata = zero_value\<rparr>" w]
  by (auto simp: client_GetContentMetadata_def Let_def split: prod.splits sum.splits)

lemma client_GetContentResources_idle:
  "idle_closed (snd (client_GetContentResources L mar unm zero_value c contentID w)) = idle_closed w"
  using client_call_idle [of L mar unm c "''getContentResources''" "\<lparr>getContentResources.XMLName = ([], []), getContentResources.ContentID = contentID\<rparr>" "\<lparr>getContentResourcesResponse.XMLName = ([], []), getContentResourcesResponse.Resources = zero_value\<rparr>" w]
  by (auto simp: client_GetContentResources_def Let_def split: prod.splits sum.splits)

lemma client_IssueContent_idle:
  "idle_closed (snd (client_IssueContent L mar unm c contentID w)) = idle_closed w"
  using client_call_idle [of L mar unm c "''issueContent''" "\<lparr>issueContent.XMLName = ([], []), issueContent.ContentID = contentID\<rparr>" "\<lparr>issueContentResponse.XMLName = ([], []), issueContentResponse.IssueContentResult = False\<rparr>" w]
  by (auto simp: client_IssueContent_def Let_def split: prod.splits sum.splits)

lemma client_ReturnContent_idle:
  "idle_closed (snd (client_ReturnContent L mar unm c contentID w)) = idle_closed w"
  using client_call_idle [of L mar unm c "''returnContent''" "\<lparr>returnContent.XMLName = ([], []), returnContent.ContentID = contentID\<rparr>" "\<lparr>returnContentResponse.XMLName = ([], []), returnContentResponse.ReturnContentResult = False\<rparr>" w]
  by (auto simp: client_ReturnContent_def Let_def split: prod.splits sum.splits)

lemma client_GetQuestions_idle:
  "idle_closed (snd (client_GetQuestions L mar unm zero_value c userResponses w)) = idle_closed w"
  using client_call_idle [of L mar unm c "''getQuestions''" "\<lparr>getQuestions.XMLName = ([], []), getQuestions.UserResponses = userResponses\<rparr>" "\<lparr>getQuestionsResponse.XMLName = ([], []), getQuestionsResponse.Questions = zero_value\<rparr>" w]
  by (auto simp: client_GetQuestions_def Let_def split: prod.splits sum.splits)

lemma client_GetServiceAnnouncements_idle:
  "idle_closed (snd (client_GetServiceAnnouncements L mar unm zero_value c w)) = idle_closed w"
  using client_call_idle [of L mar unm c "''getServiceAnnouncements''" "\<lparr>getServiceAnnouncements.XMLName = ([], [])\<rparr>" "\<lparr>getServiceAnnouncementsResponse.XMLName = ([], []), getServiceAnnouncementsResponse.Announcements = zero_value\<rparr>" w]
  by (auto simp: client_GetServiceAnnouncements_def Let_def split: prod.splits sum.splits)

lemma daisyonline_LogOn_idle:
  "idle_closed (snd (daisyonline_LogOn L mar unm c username password w)) = idle_closed w"
  using daisyonline_call_idle [of L mar unm c "''logOn''" "\<lparr>logOn.XMLName = ([], []), logOn.Username = username, logOn.Password = password\<rparr>" "\<lparr>logOnResponse.XMLName = ([], []), logOnResponse.LogOnResult = False\<rparr>" w]
  by (auto simp: daisyonline_LogOn_def Let_def split: prod.splits sum.splits outcome.splits)

lemma daisyonline_LogOff_idle:
  "idle_closed (snd (daisyonline_LogOff L mar unm c w)) = idle_closed w"
  using daisyonline_call_idle [of L mar unm c "''logOff''" "\<lparr>logOff.XMLName = ([], [])\<rparr>" "\<lparr>logOffResponse.XMLName = ([], []), logOffResponse.LogOffResult = False\<rparr>" w]
  by (auto simp: daisyonline_LogOff_def Let_def split: prod.splits sum.splits outcome.splits)

lemma daisyonline_GetServiceAttributes_idle:
  "idle_closed (snd (daisyonline_GetServiceAttributes L mar unm zero_value c w)) = idle_closed w"
  using daisyonline_call_idle [of L mar unm c "''getServiceAttributes''" "\<lparr>getServiceAttributes.XMLName = ([], [])\<rparr>" "\<lparr>getServiceAttributesResponse.XMLName = ([], []), getServiceAttributesResponse.ServiceAttributes = zero_value\<rparr>" w]
  by (auto simp: daisyonline_GetServiceAttributes_def Let_def split: prod.splits sum.splits outcome.splits)

lemma daisyonline_SetReadingSystemAttributes_idle:
  "idle_closed (snd (daisyonline_SetReadingSystemAttributes L mar unm c readingSystemAttributes w)) = idle_closed w"
  using daisyonline_call_idle [of L mar unm c "''setReadingSystemAttributes''" "\<lparr>setReadingSystemAttributes.XMLName = ([], []), setReadingSystemAttributes.ReadingSystemAttributes = readingSystemAttributes\<rparr>" "\<lparr>setReadingSystemAttributesResponse.XMLName = ([], []), setReadingSystemAttributesResponse.SetReadingSystemAttributesResult = False\<rparr>" w]
  by (auto simp: daisyonline_SetReadingSystemAttributes_def Let_def split: prod.splits sum.splits outcome.splits)

lemma daisyonline_GetContentList_idle:
  "idle_closed (snd (daisyonline_GetContentList L mar unm zero_value c id' firstItem lastItem w)) = idle_closed w"
  using daisyonline_call_idle [of L mar unm c "''getContentList''" "\<lparr>getContentList.XMLName = ([], []), getContentList.ID = id', getContentList.FirstItem = firstItem, getContentList.LastItem = lastItem\<rparr>" "\<lparr>getContentListResponse.XMLName = ([], []), getContentListResponse.ContentList = zero_value\<rparr>" w]
  by (auto simp: daisyonline_GetContentList_def Let_def split: prod.splits sum.splits outcome.splits)

lemma daisyonline_GetContentMetadata_idle:
  "idle_closed (snd (daisyonline_GetContentMetadata L mar unm zero_value c contentID w)) = idle_closed w"
  using daisyonline_call_idle [of L mar unm c "''getContentMetadata''" "\<lparr>getContentMetadata.XMLName = ([], []), getContentMetadata.ContentID = contentID\<rparr>" "\<lparr>getContentMetadataResponse.XMLName = ([], []), getContentMetadataResponse.ContentMetadata = zero_value\<rparr>" w]
  by (auto simp: daisyonline_GetContentMetadata_def Let_def split: prod.splits sum.splits outcome.splits)

lemma daisyonline_GetContentResources_idle:
  "idle_closed (snd (daisyonline_GetContentResources L mar unm zero_value c contentID w)) = idle_closed w"
  using daisyonline_call_idle [of L mar unm c "''getContentResources''" "\<lparr>getContentResources.XMLName = ([], []), getContentResources.ContentID = contentID\<rparr>" "\<lparr>getContentResourcesResponse.XMLName = ([], []), getContentResourcesResponse.Resources = zero_value\<rparr>" w]
  by (auto simp: daisyonline_GetContentResources_def Let_def split: prod.splits sum.splits outcome.splits)

lemma daisyonline_IssueContent_idle:
  "idle_closed (snd (daisyonline_IssueContent L mar unm c contentID w)) = idle_closed w"
  using daisyonline_call_idle [of L mar unm c "''issueContent''" "\<lparr>issueContent.XMLName = ([], []), issueContent.ContentID = contentID\<rparr>" "\<lparr>issueContentResponse.XMLName = ([], []), issueContentResponse.IssueContentResult = False\<rparr>" w]
  by (auto simp: daisyonline_IssueContent_def Let_def split: prod.splits sum.splits outcome.splits)

lemma daisyonline_ReturnContent_idle:
  "idle_closed (snd (daisyonline_ReturnContent L mar unm c contentID w)) = idle_closed w"
  using daisyonline_call_idle [of L mar unm c "''returnContent''" "\<lparr>returnContent.XMLName = ([], []), returnContent.ContentID = contentID\<rparr>" "\<lparr>returnContentResponse.XMLName = ([], []), returnContentResponse.ReturnContentResult = False\<rparr>" w]
  by (auto simp: daisyonline_ReturnContent_def Let_def split: prod.splits sum.splits outcome.splits)

lemma daisyonline_GetQuestions_idle:
  "idle_closed (snd (daisyonline_GetQuestions L mar unm zero_value c userResponses w)) = idle_closed w"
  using daisyonline_call_idle [of L mar unm c "''getQuestions''" "\<lparr>getQuestions.XMLName = ([], []), getQuestions.UserResponses = userResponses\<rparr>" "\<lparr>getQuestionsResponse.XMLName = ([], []), getQuestionsResponse.Questions = zero_value\<rparr>" w]
  by (auto simp: daisyonline_GetQuestions_def Let_def split: prod.splits sum.splits outcome.splits)

lemma daisyonline_GetServiceAnnouncements_idle:
  "idle_closed (snd (daisyonline_GetServiceAnnouncements L mar unm zero_value c w)) = idle_closed w"
  using daisyonline_call_idle [of L mar unm c "''getServiceAnnouncements''" "\<lparr>getServiceAnnouncements.XMLName = ([], [])\<rparr>" "\<lparr>getServiceAnnouncementsResponse.XMLName = ([], []), getServiceAnnouncementsResponse.Announcements = zero_value\<rparr>" w]
  by (auto simp: daisyonline_GetServiceAnnouncements_def Let_def split: prod.splits sum.splits outcome.splits)

lemmas methods_idle =
  LogOn_idle
  LogOff_idle
  GetServiceAttributes_idle
  SetReadingSystemAttributes_idle
  GetContentList_idle
  GetContentMetadata_idle
  GetContentResources_idle
  IssueContent_idle
  ReturnContent_idle
  GetQuestions_idle
  GetServiceAnnouncements_idle
  SetBookmarks_idle
  GetBookmarks_idle
  MarkAnnouncementsAsRead_idle
  client_LogOn_idle
  client_LogOff_idle
  client_GetServiceAttributes_idle
  client_SetReadingSystemAttributes_idle
  client_GetContentList_idle
  client_GetContentMetadata_idle
  client_GetContentResources_idle
  client_IssueContent_idle
  client_ReturnContent_idle
  client_GetQuestions_idle
  client_GetServiceAnnouncements_idle
  daisyonline_LogOn_idle
  daisyonline_LogOff_idle
  daisyonline_GetServiceAttributes_idle
  daisyonline_SetReadingSystemAttributes_idle
  daisyonline_GetContentList_idle
  daisyonline_GetContentMetadata_idle
  daisyonline_GetContentResources_idle
  daisyonline_IssueContent_idle
  daisyonline_ReturnContent_idle
  daisyonline_GetQuestions_idle
  daisyonline_GetServiceAnnouncements_idle

lemma daisyonline_Authentication_idle:
  "idle_closed (snd (daisyonline_Authentication L mar1 unm1 mar2 unm2 zero_value mar3 unm3 c
       readingSystemAttributes username password w)) = idle_closed w"
proof -
  obtain r1 w1 where 1: "daisyonline_LogOn L mar1 unm1 c username password w = (r1, w1)"
    by (cases "daisyonline_LogOn L mar1 unm1 c username password w")
  obtain r2 w2 where 2: "daisyonline_GetServiceAttributes L mar2 unm2 zero_value c w1 = (r2, w2)"
    by (cases "daisyonline_GetServiceAttributes L mar2 unm2 zero_value c w1")
  obtain r3 w3 where 3:
    "daisyonline_SetReadingSystemAttributes L mar3 unm3 c readingSystemAttributes w2 = (r3, w3)"
    by (cases "daisyonline_SetReadingSystemAttributes L mar3 unm3 c readingSystemAttributes w2")
  have i1: "idle_closed w1 = idle_closed w"
    using daisyonline_LogOn_idle [of L mar1 unm1 c username password w] 1 by simp
  have i2: "idle_closed w2 = idle_closed w1"
    using daisyonline_GetServiceAttributes_idle [of L mar2 unm2 zero_value c w1] 2 by simp
  have i3: "idle_closed w3 = idle_closed w2"
    using daisyonline_SetReadingSystemAttributes_idle [of L mar3 unm3 c readingSystemAttributes w2] 3
    by simp
  show ?thesis
    using 1 2 3 i1 i2 i3
    by (simp add: daisyonline_Authentication_def split: outcome.splits option.splits prod.splits)
qed

text \<open>
  Claim C9, as amended. In the two clients of the package \<^verbatim>\<open>dodp\<close>, \<^verbatim>\<open>LogOff\<close> closes
  the idle connections exactly when its call returned no error; no other method of these
  clients closes them, and nothing in the package \<^verbatim>\<open>daisyonline\<close> does: neither a method
  of its client, its \<^verbatim>\<open>LogOff\<close> included, nor \<^verbatim>\<open>Authentication\<close>.
\<close>

theorem LogOff_releases_idle_connections:
  "idle_closed (snd (LogOn L mar1 unm1 c username1 password1 w)) = idle_closed w \<and>
   idle_closed (snd (LogOff L mar2 unm2 c w)) =
     (if snd (fst (LogOff L mar2 unm2 c w)) = None then Suc (idle_closed w) else idle_closed w) \<and>
   idle_closed (snd (GetServiceAttributes L mar3 unm3 zero3 c w)) = idle_closed w \<and>
   idle_closed (snd (SetReadingSystemAttributes L mar4 unm4 c readingSystemAttributes4 w)) = idle_closed w \<and>
   idle_closed (snd (GetContentList L mar5 unm5 zero5 c id5 firstItem5 lastItem5 w)) = idle_closed w \<and>
   idle_closed (snd (GetContentMetadata L mar6 unm6 zero6 c contentID6 w)) = idle_closed w \<and>
   idle_closed (snd (GetContentResources L mar7 unm7 zero7 c contentID7 w)) = idle_closed w \<and>
   idle_closed (snd (IssueContent L mar8 unm8 c contentID8 w)) = idle_closed w \<and>
   idle_closed (snd (ReturnContent L mar9 unm9 c contentID9 w)) = idle_closed w \<and>
   idle_closed (snd (GetQuestions L mar10 unm10 zero10 c userResponses10 w)) = idle_closed w \<and>
   idle_closed (snd (GetServiceAnnouncements L mar11 unm11 zero11 c w)) = idle_closed w \<and>
   idle_closed (snd (SetBookmarks L mar12 unm12 c contentID12 bookmarkSet12 w)) = idle_closed w \<and>
   idle_closed (snd (GetBookmarks L mar13 unm13 zero13 c contentID13 w)) = idle_closed w \<and>
   idle_closed (snd (MarkAnnouncementsAsRead L mar14 unm14 c read14 w)) = idle_closed w \<and>
   idle_closed (snd (client_LogOn L mar15 unm15 c username15 password15 w)) = idle_closed w \<and>
   idle_closed (snd (client_LogOff L mar16 unm16 c w)) =
     (if snd (fst (client_LogOff L mar16 unm16 c w)) = None then Suc (idle_closed w) else idle_closed w) \<and>
   idle_closed (snd (client_GetServiceAttributes L mar17 unm17 zero17 c w)) = idle_closed w \<and>
   idle_closed (snd (client_SetReadingSystemAttributes L mar18 unm18 c readingSystemAttributes18 w)) = idle_closed w \<and>
   idle_closed (snd (client_GetContentList L mar19 unm19 zero19 c id19 firstItem19 lastItem19 w)) = idle_closed w \<and>
   idle_closed (snd (client_GetContentMetadata L mar20 unm20 zero20 c contentID20 w)) = idle_closed w \<and>
   idle_closed (snd (client_GetContentResources L mar21 unm21 zero21 c contentID21 w)) = idle_closed w \<and>
   idle_closed (snd (client_IssueContent L mar22 unm22 c contentID22 w)) = idle_closed w \<and>
   idle_closed (snd (client_ReturnContent L mar23 unm23 c contentID23 w)) = idle_closed w \<and>
   idle_closed (snd (client_GetQuestions L mar24 unm24 zero24 c userResponses24 w)) = idle_closed w \<and>
   idle_closed (snd (client_GetServiceAnnouncements L mar25 unm25 zero25 c w)) = idle_closed w \<and>
   idle_closed (snd (daisyonline_LogOn L mar26 unm26 c username26 password26 w)) = idle_closed w \<and>
   idle_closed (snd (daisyonline_LogOff L mar27 unm27 c w)) = idle_closed w \<and>
   idle_closed (snd (daisyonline_GetServiceAttributes L mar28 unm28 zero28 c w)) = idle_closed w \<and>
   idle_closed (snd (daisyonline_SetReadingSystemAttributes L mar29 unm29 c readingSystemAttributes29 w)) = idle_closed w \<and>
   idle_closed (snd (daisyonline_GetContentList L mar30 unm30 zero30 c id30 firstItem30 lastItem30 w)) = idle_closed w \<and>
   idle_closed (snd (daisyonline_GetContentMetadata L mar31 unm31 zero31 c contentID31 w)) = idle_closed w \<and>
   idle_closed (snd (daisyonline_GetContentResources L mar32 unm32 zero32 c contentID32 w)) = idle_closed w \<and>
   idle_closed (snd (daisyonline_IssueContent L mar33 unm33 c contentID33 w)) = idle_closed w \<and>
   idle_closed (snd (daisyonline_ReturnContent L mar34 unm34 c contentID34 w)) = idle_closed w \<and>
   idle_closed (snd (daisyonline_GetQuestions L mar35 unm35 zero35 c userResponses35 w)) = idle_closed w \<and>
   idle_closed (snd (daisyonline_GetServiceAnnouncements L mar36 unm36 zero36 c w)) = idle_closed w \<and>
   idle_closed (snd (daisyonline_Authentication L mar39 unm39 mar40 unm40 zero40 mar41 unm41 c
       readingSystemAttributes41 username39 password39 w)) = idle_closed w"
  by (intro conjI) (rule methods_idle daisyonline_Authentication_idle)+

text \<open>The witness: a sign-off that the server accepts closes the idle connections once.\<close>

theorem LogOff_releases_idle_connections_witness:
  "fst (LogOff logOff_lib marshal_logOff unmarshal_logOffResponse client0 world0) = (True, None) \<and>
   idle_closed (snd (LogOff logOff_lib marshal_logOff unmarshal_logOffResponse client0 world0)) =
     Suc (idle_closed world0)"
  using LogOff_releases_idle_connections
    [where L = logOff_lib and c = client0 and w = world0
       and ?mar2.0 = marshal_logOff and ?unm2.0 = unmarshal_logOffResponse,
     THEN conjunct2, THEN conjunct1]
  by (simp add: LogOff_def eval_defs TrimSpace_def ParseBool_def is_space_def)

text \<open>
  Claim C9 as it was stated fails: a sign-off whose request cannot be delivered returns its
  error before it reaches \<^verbatim>\<open>CloseIdleConnections\<close>, and the \<^verbatim>\<open>LogOff\<close> of the package
  \<^verbatim>\<open>daisyonline\<close> never calls it, not even when the server accepts the sign-off.
\<close>

theorem LogOff_keeps_idle_connections_counterexample:
  "snd (fst (LogOff refused_lib marshal_logOff unmarshal_logOffResponse client0 world0)) =
     Some (Errorf ''logOff operation: '' (TransportError ''dial tcp: connection refused'')) \<and>
   idle_closed (snd (LogOff refused_lib marshal_logOff unmarshal_logOffResponse client0 world0)) =
     idle_closed world0 \<and>
   fst (daisyonline_LogOff logOff_lib marshal_logOff unmarshal_logOffResponse client0 world0) =
     Return (True, None) \<and>
   idle_closed (snd (daisyonline_LogOff logOff_lib marshal_logOff unmarshal_logOffResponse client0 world0)) =
     idle_closed world0"
  by (simp add: LogOff_def daisyonline_LogOff_def eval_defs TrimSpace_def ParseBool_def is_space_def)

section \<open>Errors and zero values\<close>

lemma LogOn_zero:
  "snd (fst (LogOn L mar unm c username password w)) = None \<or> fst (fst (LogOn L mar unm c username password w)) = False"
  by (simp add: LogOn_def Let_def split: prod.splits sum.splits)

lemma LogOff_zero:
  "snd (fst (LogOff L mar unm c w)) = None \<or> fst (fst (LogOff L mar unm c w)) = False"
  by (simp add: LogOff_def Let_def split: prod.splits sum.splits)

lemma GetServiceAttributes_zero:
  "snd (fst (GetServiceAttributes L mar unm zero_value c w)) = None \<or> fst (fst (GetServiceAttributes L mar unm zero_value c w)) = None"
  by (simp add: GetServiceAttributes_def Let_def split: prod.splits sum.splits)

lemma SetReadingSystemAttributes_zero:
  "snd (fst (SetReadingSystemAttributes L mar unm c readingSystemAttributes w)) = None \<or> fst (fst (SetReadingSystemAttributes L mar unm c readingSystemAttributes w)) = False"
  by (simp add: SetReadingSystemAttributes_def Let_def split: prod.splits sum.splits)

lemma GetContentList_zero:
  "snd (fst (GetContentList L mar unm zero_value c id' firstItem lastItem w)) = None \<or> fst (fst (GetContentList L mar unm zero_value c id' firstItem lastItem w)) = None"
  by (simp add: GetContentList_def Let_def split: prod.splits sum.splits)

lemma GetContentMetadata_zero:
  "snd (fst (GetContentMetadata L mar unm zero_value c contentID w)) = None \<or> fst (fst (GetContentMetadata L mar unm zero_value c contentID w)) = None"
  by (simp add: GetContentMetadata_def Let_def split: prod.splits sum.splits)

lemma GetContentResources_zero:
  "snd (fst (GetContentResources L mar unm zero_value c contentID w)) = None \<or> fst (fst (GetContentResources L mar unm zero_value c contentID w)) = None"
  by (simp add: GetContentResources_def Let_def split: prod.splits sum.splits)

lemma IssueContent_zero:
  "snd (fst (IssueContent L mar unm c contentID w)) = None \<or> fst (fst (IssueContent L mar unm c contentID w)) = False"
  by (simp add: IssueContent_def Let_def split: prod.splits sum.splits)

lemma ReturnContent_zero:
  "snd (fst (ReturnContent L mar unm c contentID w)) = None \<or> fst (fst (ReturnContent L mar unm c contentID w)) = False"
  by (simp add: ReturnContent_def Let_def split: prod.splits sum.splits)

lemma GetQuestions_zero:
  "snd (fst (GetQuestions L mar unm zero_value c userResponses w)) = None \<or> fst (fst (GetQuestions L mar unm zero_value c userResponses w)) = None"
  by (simp add: GetQuestions_def Let_def split: prod.splits sum.splits)

lemma GetServiceAnnouncements_zero:
  "snd (fst (GetServiceAnnouncements L mar unm zero_value c w)) = None \<or> fst (fst (GetServiceAnnouncements L mar unm zero_value c w)) = None"
  by (simp add: GetServiceAnnouncements_def Let_def split: prod.splits sum.splits)

lemma SetBookmarks_zero:
  "snd (fst (SetBookmarks L mar unm c contentID bookmarkSet w)) = None \<or> fst (fst (SetBookmarks L mar unm c contentID bookmarkSet w)) = False"
  by (simp add: SetBookmarks_def Let_def split: prod.splits sum.splits)

lemma GetBookmarks_zero:
  "snd (fst (GetBookmarks L mar unm zero_value c contentID w)) = None \<or> fst (fst (GetBookmarks L mar unm zero_value c contentID w)) = None"
  by (simp add: GetBookmarks_def Let_def split: prod.splits sum.splits)

lemma MarkAnnouncementsAsRead_zero:
  "snd (fst (MarkAnnouncementsAsRead L mar unm c read w)) = None \<or> fst (fst (MarkAnnouncementsAsRead L mar unm c read w)) = False"
  by (simp add: MarkAnnouncementsAsRead_def Let_def split: prod.splits sum.splits)

lemma client_LogOn_zero:
  "snd (fst (client_LogOn L mar unm c username password w)) = None \<or> fst (fst (client_LogOn L mar unm c username password w)) = False"
  by (simp add: client_LogOn_def Let_def split: prod.splits sum.splits)

lemma client_LogOff_zero:
  "snd (fst (client_LogOff L mar unm c w)) = None \<or> fst (fst (client_LogOff L mar unm c w)) = False"
  by (simp add: client_LogOff_def Let_def split: prod.splits sum.splits)

lemma client_GetServiceAttributes_zero:
  "snd (fst (client_GetServiceAttributes L mar unm zero_value c w)) = None \<or> fst (fst (client_GetServiceAttributes L mar unm zero_value c w)) = None"
  by (simp add: client_GetServiceAttributes_def Let_def split: prod.splits sum.splits)

lemma client_SetReadingSystemAttributes_zero:
  "snd (fst (client_SetReadingSystemAttributes L mar unm c readingSystemAttributes w)) = None \<or> fst (fst (client_SetReadingSystemAttributes L mar unm c readingSystemAttributes w)) = False"
  by (simp add: client_SetReadingSystemAttributes_def Let_def split: prod.splits sum.splits)

lemma client_GetContentList_zero:
  "snd (fst (client_GetContentList L mar unm zero_value c id' firstItem lastItem w)) = None \<or> fst (fst (client_GetContentList L mar unm zero_value c id' firstItem lastItem w)) = None"
  by (simp add: client_GetContentList_def Let_def split: prod.splits sum.splits)

lemma client_GetContentMetadata_zero:
  "snd (fst (client_GetContentMetadata L mar unm zero_value c contentID w)) = None \<or> fst (fst (client_GetContentMetadata L mar unm zero_value c contentID w)) = None"
  by (simp add: client_GetContentMetadata_def Let_def split: prod.splits sum.splits)

lemma client_GetContentResources_zero:
  "snd (fst (client_GetContentResources L mar unm zero_value c contentID w)) = None \<or> fst (fst (client_GetContentResources L mar unm zero_value c contentID w)) = None"
  by (simp add: client_GetContentResources_def Let_def split: prod.splits sum.splits)

lemma client_IssueContent_zero:
  "snd (fst (client_IssueContent L mar unm c contentID w)) = None \<or> fst (fst (client_IssueContent L mar unm c contentID w)) = False"
  by (simp add: client_IssueContent_def Let_def split: prod.splits sum.splits)

lemma client_ReturnContent_zero:
  "snd (fst (client_ReturnContent L mar unm c contentID w)) = None \<or> fst (fst (client_ReturnContent L mar unm c contentID w)) = False"
  by (simp add: client_ReturnContent_def Let_def split: prod.splits sum.splits)

lemma client_GetQuestions_zero:
  "snd (fst (client_GetQuestions L mar unm zero_value c userResponses w)) = None \<or> fst (fst (client_GetQuestions L mar unm zero_value c userResponses w)) = None"
  by (simp add: client_GetQuestions_def Let_def split: prod.splits sum.splits)

lemma client_GetServiceAnnouncements_zero:
  "snd (fst (client_GetServiceAnnouncements L mar unm zero_value c w)) = None \<or> fst (fst (client_GetServiceAnnouncements L mar unm zero_value c w)) = None"
  by (simp add: client_GetServiceAnnouncements_def Let_def split: prod.splits sum.splits)

lemma daisyonline_LogOn_zero:
  "(case fst (daisyonline_LogOn L mar unm c username password w) of
      Panic e \<Rightarrow> True
    | Return r \<Rightarrow> snd r = None \<or> fst r = False)"
  by (simp add: daisyonline_LogOn_def Let_def split: prod.splits sum.splits outcome.splits)

lemma daisyonline_LogOff_zero:
  "(case fst (daisyonline_LogOff L mar unm c w) of
      Panic e \<Rightarrow> True
    | Return r \<Rightarrow> snd r = None \<or> fst r = False)"
  by (simp add: daisyonline_LogOff_def Let_def split: prod.splits sum.splits outcome.splits)

lemma daisyonline_GetServiceAttributes_zero:
  "(case fst (daisyonline_GetServiceAttributes L mar unm zero_value c w) of
      Panic e \<Rightarrow> True
    | Return r \<Rightarrow> snd r = None \<or> fst r = None)"
  by (simp add: daisyonline_GetServiceAttributes_def Let_def split: prod.splits sum.splits outcome.splits)

lemma daisyonline_SetReadingSystemAttributes_zero:
  "(case fst (daisyonline_SetReadingSystemAttributes L mar unm c readingSystemAttributes w) of
      Panic e \<Rightarrow> True
    | Return r \<Rightarrow> snd r = None \<or> fst r = False)"
  by (simp add: daisyonline_SetReadingSystemAttributes_def Let_def split: prod.splits sum.splits outcome.splits)

lemma daisyonline_GetContentList_zero:
  "(case fst (daisyonline_GetContentList L mar unm zero_value c id' firstItem lastItem w) of
      Panic e \<Rightarrow> True
    | Return r \<Rightarrow> snd r = None \<or> fst r = None)"
  by (simp add: daisyonline_GetContentList_def Let_def split: prod.splits sum.splits outcome.splits)

lemma daisyonline_GetContentMetadata_zero:
  "(case fst (daisyonline_GetContentMetadata L mar unm zero_value c contentID w) of
      Panic e \<Rightarrow> True
    | Return r \<Rightarrow> snd r = None \<or> fst r = None)"
  by (simp add: daisyonline_GetContentMetadata_def Let_def split: prod.splits sum.splits outcome.splits)

lemma daisyonline_GetContentResources_zero:
  "(case fst (daisyonline_GetContentResources L mar unm zero_value c contentID w) of
      Panic e \<Rightarrow> True
    | Return r \<Rightarrow> snd r = None \<or> fst r = None)"
  by (simp add: daisyonline_GetContentResources_def Let_def split: prod.splits sum.splits outcome.splits)

lemma daisyonline_IssueContent_zero:
  "(case fst (daisyonline_IssueContent L mar unm c contentID w) of
      Panic e \<Rightarrow> True
    | Return r \<Rightarrow> snd r = None \<or> fst r = False)"
  by (simp add: daisyonline_IssueContent_def Let_def split: prod.splits sum.splits outcome.splits)

lemma daisyonline_ReturnContent_zero:
  "(case fst (daisyonline_ReturnContent L mar unm c contentID w) of
      Panic e \<Rightarrow> True
    | Return r \<Rightarrow> snd r = None \<or> fst r = False)"
  by (simp add: daisyonline_ReturnContent_def Let_def split: prod.splits sum.splits outcome.splits)

lemma daisyonline_GetQuestions_zero:
  "(case fst (daisyonline_GetQuestions L mar unm zero_value c userResponses w) of
      Panic e \<Rightarrow> True
    | Return r \<Rightarrow> snd r = None \<or> fst r = None)"
  by (simp add: daisyonline_GetQuestions_def Let_def split: prod.splits sum.splits outcome.splits)

lemma daisyonline_GetServiceAnnouncements_zero:
  "(case fst (daisyonline_GetServiceAnnouncements L mar unm zero_value c w) of
      Panic e \<Rightarrow> True
    | Return r \<Rightarrow> snd r = None \<or> fst r = None)"
  by (simp add: daisyonline_GetServiceAnnouncements_def Let_def split: prod.splits sum.splits outcome.splits)

lemmas methods_zero =
  LogOn_zero
  LogOff_zero
  GetServiceAttributes_zero
  SetReadingSystemAttributes_zero
  GetContentList_zero
  GetContentMetadata_zero
  GetContentResources_zero
  IssueContent_zero
  ReturnContent_zero
  GetQuestions_zero
  GetServiceAnnouncements_zero
  SetBookmarks_zero
  GetBookmarks_zero
  MarkAnnouncementsAsRead_zero
  client_LogOn_zero
  client_LogOff_zero
  client_GetServiceAttributes_zero
  client_SetReadingSystemAttributes_zero
  client_GetContentList_zero
  client_GetContentMetadata_zero
  client_GetContentResources_zero
  client_IssueContent_zero
  client_ReturnContent_zero
  client_GetQuestions_zero
  client_GetServiceAnnouncements_zero
  daisyonline_LogOn_zero
  daisyonline_LogOff_zero
  daisyonline_GetServiceAttributes_zero
  daisyonline_SetReadingSystemAttributes_zero
  daisyonline_GetContentList_zero
  daisyonline_GetContentMetadata_zero
  daisyonline_GetContentResources_zero
  daisyonline_IssueContent_zero
  daisyonline_ReturnContent_zero
  daisyonline_GetQuestions_zero
  daisyonline_GetServiceAnnouncements_zero

lemma daisyonline_Authentication_zero:
  "(case fst (daisyonline_Authentication L mar1 unm1 mar2 unm2 zero_value mar3 unm3 c
       readingSystemAttributes username password w) of
      Panic e \<Rightarrow> True
    | Return r \<Rightarrow> snd r = None \<or> fst r = None)"
  by (simp add: daisyonline_Authentication_def split: prod.splits outcome.splits option.splits)

text \<open>
  Claim C10. Every method of the three clients, and \<^verbatim>\<open>Authentication\<close> too, returns
  either no error or the zero value of its result type: \<open>false\<close> from the methods that
  return a flag, \<^verbatim>\<open>nil\<close> from those that return a pointer. (In the package
  \<^verbatim>\<open>daisyonline\<close> a call may also panic, and then returns nothing.)
\<close>

theorem error_comes_with_zero_value:
  "(snd (fst (LogOn L mar1 unm1 c username1 password1 w)) = None \<or> fst (fst (LogOn L mar1 unm1 c username1 password1 w)) = False) \<and>
   (snd (fst (LogOff L mar2 unm2 c w)) = None \<or> fst (fst (LogOff L mar2 unm2 c w)) = False) \<and>
   (snd (fst (GetServiceAttributes L mar3 unm3 zero3 c w)) = None \<or> fst (fst (GetServiceAttributes L mar3 unm3 zero3 c w)) = None) \<and>
   (snd (fst (SetReadingSystemAttributes L mar4 unm4 c readingSystemAttributes4 w)) = None \<or> fst (fst (SetReadingSystemAttributes L mar4 unm4 c readingSystemAttributes4 w)) = False) \<and>
   (snd (fst (GetContentList L mar5 unm5 zero5 c id5 firstItem5 lastItem5 w)) = None \<or> fst (fst (GetContentList L mar5 unm5 zero5 c id5 firstItem5 lastItem5 w)) = None) \<and>
   (snd (fst (GetContentMetadata L mar6 unm6 zero6 c contentID6 w)) = None \<or> fst (fst (GetContentMetadata L mar6 unm6 zero6 c contentID6 w)) = None) \<and>
   (snd (fst (GetContentResources L mar7 unm7 zero7 c contentID7 w)) = None \<or> fst (fst (GetContentResources L mar7 unm7 zero7 c contentID7 w)) = None) \<and>
   (snd (fst (IssueContent L mar8 unm8 c contentID8 w)) = None \<or> fst (fst (IssueContent L mar8 unm8 c contentID8 w)) = False) \<and>
   (snd (fst (ReturnContent L mar9 unm9 c contentID9 w)) = None \<or> fst (fst (ReturnContent L mar9 unm9 c contentID9 w)) = False) \<and>
   (snd (fst (GetQuestions L mar10 unm10 zero10 c userResponses10 w)) = None \<or> fst (fst (GetQuestions L mar10 unm10 zero10 c userResponses10 w)) = None) \<and>
   (snd (fst (GetServiceAnnouncements L mar11 unm11 zero11 c w)) = None \<or> fst (fst (GetServiceAnnouncements L mar11 unm11 zero11 c w)) = None) \<and>
   (snd (fst (SetBookmarks L mar12 unm12 c contentID12 bookmarkSet12 w)) = None \<or> fst (fst (SetBookmarks L mar12 unm12 c contentID12 bookmarkSet12 w)) = False) \<and>
   (snd (fst (GetBookmarks L mar13 unm13 zero13 c contentID13 w)) = None \<or> fst (fst (GetBookmarks L mar13 unm13 zero13 c contentID13 w)) = None) \<and>
   (snd (fst (MarkAnnouncementsAsRead L mar14 unm14 c read14 w)) = None \<or> fst (fst (MarkAnnouncementsAsRead L mar14 unm14 c read14 w)) = False) \<and>
   (snd (fst (client_LogOn L mar15 unm15 c username15 password15 w)) = None \<or> fst (fst (client_LogOn L mar15 unm15 c username15 password15 w)) = False) \<and>
   (snd (fst (client_LogOff L mar16 unm16 c w)) = None \<or> fst (fst (client_LogOff L mar16 unm16 c w)) = False) \<and>
   (snd (fst (client_GetServiceAttributes L mar17 unm17 zero17 c w)) = None \<or> fst (fst (client_GetServiceAttributes L mar17 unm17 zero17 c w)) = None) \<and>
   (snd (fst (client_SetReadingSystemAttributes L mar18 unm18 c readingSystemAttributes18 w)) = None \<or> fst (fst (client_SetReadingSystemAttributes L mar18 unm18 c readingSystemAttributes18 w)) = False) \<and>
   (snd (fst (client_GetContentList L mar19 unm19 zero19 c id19 firstItem19 lastItem19 w)) = None \<or> fst (fst (client_GetContentList L mar19 unm19 zero19 c id19 firstItem19 lastItem19 w)) = None) \<and>
   (snd (fst (client_GetContentMetadata L mar20 unm20 zero20 c contentID20 w)) = None \<or> fst (fst (client_GetContentMetadata L mar20 unm20 zero20 c contentID20 w)) = None) \<and>
   (snd (fst (client_GetContentResources L mar21 unm21 zero21 c contentID21 w)) = None \<or> fst (fst (client_GetContentResources L mar21 unm21 zero21 c contentID21 w)) = None) \<and>
   (snd (fst (client_IssueContent L mar22 unm22 c contentID22 w)) = None \<or> fst (fst (client_IssueContent L mar22 unm22 c contentID22 w)) = False) \<and>
   (snd (fst (client_ReturnContent L mar23 unm23 c contentID23 w)) = None \<or> fst (fst (client_ReturnContent L mar23 unm23 c contentID23 w)) = False) \<and>
   (snd (fst (client_GetQuestions L mar24 unm24 zero24 c userResponses24 w)) = None \<or> fst (fst (client_GetQuestions L mar24 unm24 zero24 c userResponses24 w)) = None) \<and>
   (snd (fst (client_GetServiceAnnouncements L mar25 unm25 zero25 c w)) = None \<or> fst (fst (client_GetServiceAnnouncements L mar25 unm25 zero25 c w)) = None) \<and>
   (case fst (daisyonline_LogOn L mar26 unm26 c username26 password26 w) of
      Panic e \<Rightarrow> True
    | Return r \<Rightarrow> snd r = None \<or> fst r = False) \<and>
   (case fst (daisyonline_LogOff L mar27 unm27 c w) of
      Panic e \<Rightarrow> True
    | Return r \<Rightarrow> snd r = None \<or> fst r = False) \<and>
   (case fst (daisyonline_GetServiceAttributes L mar28 unm28 zero28 c w) of
      Panic e \<Rightarrow> True
    | Return r \<Rightarrow> snd r = None \<or> fst r = None) \<and>
   (case fst (daisyonline_SetReadingSystemAttributes L mar29 unm29 c readingSystemAttributes29 w) of
      Panic e \<Rightarrow> True
    | Return r \<Rightarrow> snd r = None \<or> fst r = False) \<and>
   (case fst (daisyonline_GetContentList L mar30 unm30 zero30 c id30 firstItem30 lastItem30 w) of
      Panic e \<Rightarrow> True
    | Return r \<Rightarrow> snd r = None \<or> fst r = None) \<and>
   (case fst (daisyonline_GetContentMetadata L mar31 unm31 zero31 c contentID31 w) of
      Panic e \<Rightarrow> True
    | Return r \<Rightarrow> snd r = None \<or> fst r = None) \<and>
   (case fst (daisyonline_GetContentResources L mar32 unm32 zero32 c contentID32 w) of
      Panic e \<Rightarrow> True
    | Return r \<Rightarrow> snd r = None \<or> fst r = None) \<and>
   (case fst (daisyonline_IssueContent L mar33 unm33 c contentID33 w) of
      Panic e \<Rightarrow> True
    | Return r \<Rightarrow> snd r = None \<or> fst r = False) \<and>
   (case fst (daisyonline_ReturnContent L mar34 unm34 c contentID34 w) of
      Panic e \<Rightarrow> True
    | Return r \<Rightarrow> snd r = None \<or> fst r = False) \<and>
   (case fst (daisyonline_GetQuestions L mar35 unm35 zero35 c userResponses35 w) of
      Panic e \<Rightarrow> True
    | Return r \<Rightarrow> snd r = None \<or> fst r = None) \<and>
   (case fst (daisyonline_GetServiceAnnouncements L mar36 unm36 zero36 c w) of
      Panic e \<Rightarrow> True
    | Return r \<Rightarrow> snd r = None \<or> fst r = None) \<and>
   (case fst (daisyonline_Authentication L mar39 unm39 mar40 unm40 zero40 mar41 unm41 c
       readingSystemAttributes41 username39 password39 w) of
      Panic e \<Rightarrow> True
    | Return r \<Rightarrow> snd r = None \<or> fst r = None)"
  by (intro conjI) (rule methods_zero daisyonline_Authentication_zero)+

text \<open>The witness: a server that cannot be reached.\<close>

theorem error_comes_with_zero_value_witness:
  "fst (LogOn refused_lib marshal_logOn unmarshal_logOnResponse client0 ''u'' ''p'' world0) =
     (False, Some (Errorf ''logOn operation: '' (TransportError ''dial tcp: connection refused''))) \<and>
   fst (GetServiceAttributes refused_lib (\<lambda>v. Inr []) (\<lambda>d n a ts. Inr d) True client0 world0) =
     (None, Some (Errorf ''getServiceAttributes operation: '' (TransportError ''dial tcp: connection refused'')))"
  using error_comes_with_zero_value
    [where L = refused_lib and c = client0 and w = world0
       and ?mar1.0 = marshal_logOn and ?unm1.0 = unmarshal_logOnResponse
       and ?username1.0 = "''u''" and ?password1.0 = "''p''",
     THEN conjunct1]
    error_comes_with_zero_value
    [where L = refused_lib and c = client0 and w = world0
       and ?mar3.0 = "\<lambda>v. Inr []" and ?unm3.0 = "\<lambda>d n a ts. Inr d" and ?zero3.0 = True,
     THEN conjunct2, THEN conjunct2, THEN conjunct1]
  by (simp add: LogOn_def GetServiceAttributes_def eval_defs)

end
